theory Spec2Isabelle
  imports Main "HOL-Library.Sublist"
begin

section \<open>Data model (object/record.go, object/record_chain.go)\<close>

text \<open>
  Go strings are byte sequences; they are modelled as \<open>string\<close> (a list of 8-bit
  \<open>char\<close>), so \<open>length\<close> is Go's \<open>len\<close> and \<open>take\<close> is Go's slice \<open>s[0:n]\<close>.
  A Go \<open>error\<close> is modelled by its message.
\<close>

type_synonym error = string

text \<open>
  The struct \<open>Record\<close> of object/record.go, one field per struct field, in the order of
  the declaration. The field \<open>Id\<close> is named \<open>RecordId\<close> because \<open>Id\<close> is the identity
  relation of HOL.
\<close>

record Record =
  RecordId :: int
  Owner :: string
  Name :: string
  CreatedTime :: string
  Organization :: string
  ClientIp :: string
  UserAgent :: string
  User :: string
  Method :: string
  RequestUri :: string
  Action :: string
  Language :: string
  Region :: string
  City :: string
  Unit :: string
  Section :: string
  Object :: string
  Response :: string
  Provider :: string
  Block :: string
  BlockHash :: string
  Transaction :: string
  Provider2 :: string
  Block2 :: string
  BlockHash2 :: string
  Transaction2 :: string
  IsTriggered :: bool
  NeedCommit :: bool

text \<open>The zero value \<open>Record{}\<close> of Go.\<close>

definition Record_zero :: Record where
  "Record_zero = \<lparr>RecordId = 0, Owner = [], Name = [], CreatedTime = [], Organization = [],
     ClientIp = [], UserAgent = [], User = [], Method = [], RequestUri = [], Action = [],
     Language = [], Region = [], City = [], Unit = [], Section = [], Object = [],
     Response = [], Provider = [], Block = [], BlockHash = [], Transaction = [],
     Provider2 = [], Block2 = [], BlockHash2 = [], Transaction2 = [],
     IsTriggered = False, NeedCommit = False\<rparr>"

text \<open>The struct \<open>Param\<close> of object/record_chain.go.\<close>

record Param =
  Key :: string
  Field :: string
  Value :: string

subsection \<open>What encoding/json sees of a struct\<close>

text \<open>
  \<open>util.StructToJson\<close> takes an \<open>interface{}\<close>; it lives in package util, outside the files verified here.
  It is a parameter of the model; its argument is the value as reflection presents it:
  the fields in declaration order, each under the name of its \<open>json\<close> tag.
\<close>

datatype jvalue =
  JNull
  | JString string
  | JInt int
  | JBool bool
  | JObject "(string \<times> jvalue) list"

definition Record_json :: "Record \<Rightarrow> jvalue" where
  "Record_json r = JObject
     [(''id'', JInt (RecordId r)),
      (''owner'', JString (Owner r)),
      (''name'', JString (Name r)),
      (''createdTime'', JString (CreatedTime r)),
      (''organization'', JString (Organization r)),
      (''clientIp'', JString (ClientIp r)),
      (''userAgent'', JString (UserAgent r)),
      (''user'', JString (User r)),
      (''method'', JString (Method r)),
      (''requestUri'', JString (RequestUri r)),
      (''action'', JString (Action r)),
      (''language'', JString (Language r)),
      (''region'', JString (Region r)),
      (''city'', JString (City r)),
      (''unit'', JString (Unit r)),
      (''section'', JString (Section r)),
      (''object'', JString (Object r)),
      (''response'', JString (Response r)),
      (''provider'', JString (Provider r)),
      (''block'', JString (Block r)),
      (''blockHash'', JString (BlockHash r)),
      (''transaction'', JString (Transaction r)),
      (''provider2'', JString (Provider2 r)),
      (''block2'', JString (Block2 r)),
      (''blockHash2'', JString (BlockHash2 r)),
      (''transaction2'', JString (Transaction2 r)),
      (''isTriggered'', JBool (IsTriggered r)),
      (''needCommit'', JBool (NeedCommit r))]"

definition Param_json :: "Param \<Rightarrow> jvalue" where
  "Param_json p = JObject
     [(''key'', JString (Key p)),
      (''field'', JString (Field p)),
      (''value'', JString (Value p))]"

section \<open>The record store\<close>

text \<open>
  \<open>adapter.engine\<close> is an xorm engine on the table of records. The model keeps the rows
  in a list (the order in which the database returns them) and lets each kind of
  statement fail with a database error.
\<close>

datatype db_op = DbGet | DbUpdate | DbInsert | DbDelete

record store =
  rows :: "Record list"
  fault :: "db_op \<Rightarrow> error option"

text \<open>
  \<open>engine.Get(&bean)\<close>: xorm turns every non-zero field of the bean into an equality
  condition (bool fields are left out), and fills the bean from the first row found.
\<close>

definition bean_matches :: "Record \<Rightarrow> Record \<Rightarrow> bool" where
  "bean_matches bean row \<longleftrightarrow>
     (RecordId bean = 0 \<or> RecordId row = RecordId bean) \<and>
     (Owner bean = '''' \<or> Owner row = Owner bean) \<and>
     (Name bean = '''' \<or> Name row = Name bean) \<and>
     (CreatedTime bean = '''' \<or> CreatedTime row = CreatedTime bean) \<and>
     (Organization bean = '''' \<or> Organization row = Organization bean) \<and>
     (ClientIp bean = '''' \<or> ClientIp row = ClientIp bean) \<and>
     (UserAgent bean = '''' \<or> UserAgent row = UserAgent bean) \<and>
     (User bean = '''' \<or> User row = User bean) \<and>
     (Method bean = '''' \<or> Method row = Method bean) \<and>
     (RequestUri bean = '''' \<or> RequestUri row = RequestUri bean) \<and>
     (Action bean = '''' \<or> Action row = Action bean) \<and>
     (Language bean = '''' \<or> Language row = Language bean) \<and>
     (Region bean = '''' \<or> Region row = Region bean) \<and>
     (City bean = '''' \<or> City row = City bean) \<and>
     (Unit bean = '''' \<or> Unit row = Unit bean) \<and>
     (Section bean = '''' \<or> Section row = Section bean) \<and>
     (Object bean = '''' \<or> Object row = Object bean) \<and>
     (Response bean = '''' \<or> Response row = Response bean) \<and>
     (Provider bean = '''' \<or> Provider row = Provider bean) \<and>
     (Block bean = '''' \<or> Block row = Block bean) \<and>
     (BlockHash bean = '''' \<or> BlockHash row = BlockHash bean) \<and>
     (Transaction bean = '''' \<or> Transaction row = Transaction bean) \<and>
     (Provider2 bean = '''' \<or> Provider2 row = Provider2 bean) \<and>
     (Block2 bean = '''' \<or> Block2 row = Block2 bean) \<and>
     (BlockHash2 bean = '''' \<or> BlockHash2 row = BlockHash2 bean) \<and>
     (Transaction2 bean = '''' \<or> Transaction2 row = Transaction2 bean)"

definition engine_Get :: "store \<Rightarrow> Record \<Rightarrow> bool \<times> Record \<times> error option" where
  "engine_Get db bean =
     (case fault db DbGet of
        Some err \<Rightarrow> (False, bean, Some err)
      | None \<Rightarrow>
         (case find (bean_matches bean) (rows db) of
            Some row \<Rightarrow> (True, row, None)
          | None \<Rightarrow> (False, bean, None)))"

text \<open>
  \<open>engine.Where("name = ?", name).AllCols().Update(record)\<close>: every column of every row
  with that name is set from the record, zero values included; the auto-increment key is
  not among the columns of an update. The count is the number of rows matched.
\<close>

definition engine_Update_AllCols :: "store \<Rightarrow> string \<Rightarrow> Record \<Rightarrow> nat \<times> error option \<times> store" where
  "engine_Update_AllCols db name record =
     (case fault db DbUpdate of
        Some err \<Rightarrow> (0, Some err, db)
      | None \<Rightarrow>
         (length (filter (\<lambda>row. Name row = name) (rows db)), None,
          db\<lparr>rows := map (\<lambda>row. if Name row = name then record\<lparr>RecordId := RecordId row\<rparr> else row)
                         (rows db)\<rparr>))"

text \<open>
  \<open>engine.Table(&Record{}).Where("name = ?", name).Update(fields)\<close>: the keys of the map
  are column names (xorm's snake-case names of the struct fields), the values become the
  new contents of those columns in every row with that name. Both callers pass string
  values, so the map is from column names to strings, over the string columns.
\<close>

definition col :: "(string \<rightharpoonup> string) \<Rightarrow> string \<Rightarrow> string \<Rightarrow> string" where
  "col flds c old = (case flds c of Some v \<Rightarrow> v | None \<Rightarrow> old)"

definition set_columns :: "(string \<rightharpoonup> string) \<Rightarrow> Record \<Rightarrow> Record" where
  "set_columns flds row = row
     \<lparr>Owner := col flds ''owner'' (Owner row),
      Name := col flds ''name'' (Name row),
      CreatedTime := col flds ''created_time'' (CreatedTime row),
      Organization := col flds ''organization'' (Organization row),
      ClientIp := col flds ''client_ip'' (ClientIp row),
      UserAgent := col flds ''user_agent'' (UserAgent row),
      User := col flds ''user'' (User row),
      Method := col flds ''method'' (Method row),
      RequestUri := col flds ''request_uri'' (RequestUri row),
      Action := col flds ''action'' (Action row),
      Language := col flds ''language'' (Language row),
      Region := col flds ''region'' (Region row),
      City := col flds ''city'' (City row),
      Unit := col flds ''unit'' (Unit row),
      Section := col flds ''section'' (Section row),
      Object := col flds ''object'' (Object row),
      Response := col flds ''response'' (Response row),
      Provider := col flds ''provider'' (Provider row),
      Block := col flds ''block'' (Block row),
      BlockHash := col flds ''block_hash'' (BlockHash row),
      Transaction := col flds ''transaction'' (Transaction row),
      Provider2 := col flds ''provider2'' (Provider2 row),
      Block2 := col flds ''block2'' (Block2 row),
      BlockHash2 := col flds ''block_hash2'' (BlockHash2 row),
      Transaction2 := col flds ''transaction2'' (Transaction2 row)\<rparr>"

definition engine_Update_fields ::
  "store \<Rightarrow> string \<Rightarrow> (string \<rightharpoonup> string) \<Rightarrow> nat \<times> error option \<times> store" where
  "engine_Update_fields db name flds =
     (case fault db DbUpdate of
        Some err \<Rightarrow> (0, Some err, db)
      | None \<Rightarrow>
         (length (filter (\<lambda>row. Name row = name) (rows db)), None,
          db\<lparr>rows := map (\<lambda>row. if Name row = name then set_columns flds row else row)
                         (rows db)\<rparr>))"

text \<open>
  \<open>engine.Insert(record)\<close>: the row is appended; a record whose key is zero gets the next
  key of the sequence, written back into the caller's record.
\<close>

definition next_id :: "store \<Rightarrow> int" where
  "next_id db = 1 + fold max (map RecordId (rows db)) 0"

definition engine_Insert :: "store \<Rightarrow> Record \<Rightarrow> nat \<times> error option \<times> Record \<times> store" where
  "engine_Insert db record =
     (case fault db DbInsert of
        Some err \<Rightarrow> (0, Some err, record, db)
      | None \<Rightarrow>
         (let record = (if RecordId record = 0 then record\<lparr>RecordId := next_id db\<rparr> else record)
          in (1, None, record, db\<lparr>rows := rows db @ [record]\<rparr>)))"

text \<open>\<open>engine.Where("name = ?", name).Delete(&Record{})\<close>.\<close>

definition engine_Delete :: "store \<Rightarrow> string \<Rightarrow> nat \<times> error option \<times> store" where
  "engine_Delete db name =
     (case fault db DbDelete of
        Some err \<Rightarrow> (0, Some err, db)
      | None \<Rightarrow>
         (length (filter (\<lambda>row. Name row = name) (rows db)), None,
          db\<lparr>rows := filter (\<lambda>row. Name row \<noteq> name) (rows db)\<rparr>))"

section \<open>Collaborators that are parameters\<close>

text \<open>The fields of \<open>Provider\<close> that this code reads (the struct is declared in object/provider.go).\<close>

record Provider =
  Provider_Name :: string
  Provider_Type :: string
  Provider_ClientId :: string
  Provider_ClientSecret :: string
  Provider_Region :: string
  Provider_Network :: string
  Provider_Chain :: string
  Provider_ProviderUrl :: string
  Provider_Text :: string
  Provider_UserKey :: string
  Provider_UserCert :: string
  Provider_SignKey :: string
  Provider_SignCert :: string
  Provider_ContractName :: string
  Provider_ContractMethod :: string

text \<open>
  \<open>chain.ChainClientInterface\<close>: the two methods, each returning Go's tuple as it is,
  values and error side by side.
\<close>

record ChainClient =
  Commit :: "string \<Rightarrow> string \<times> string \<times> string \<times> error option"
  Query :: "string \<Rightarrow> string \<Rightarrow> string \<times> error option"

record Response =
  Status :: string
  Msg :: string

record LocationInfo =
  Loc_Country :: string
  Loc_City :: string

record Request =
  Request_Method :: string
  Request_URL_Path :: string
  Request_RequestURI :: string
  Request_Header_Accept_Language :: string

record Context =
  ctx_Request :: Request
  ctx_Input_RequestBody :: "string option"
  ctx_Input_Data_json :: jvalue

text \<open>
  The functions of packages \<open>util\<close>, \<open>conf\<close> and \<open>chain\<close>, of object/provider.go and of
  \<open>encoding/json\<close> that the code calls. They are outside the files verified here, so each is
  a field of the environment and every theorem holds for all of them. A function that can
  return an error returns a sum (\<open>Inl\<close> the error); \<open>GetOwnerAndNameFromId\<close> returns
  \<open>None\<close> where it panics.
\<close>

record env =
  logPostOnly :: bool
  GetOwnerAndNameFromId :: "string \<Rightarrow> (string \<times> string) option"
  StructToJson :: "jvalue \<Rightarrow> string"
  getProvider :: "string \<Rightarrow> string \<Rightarrow> error + Provider option"
  GetActiveBlockchainProvider :: "string \<Rightarrow> error + Provider option"
  GetTwoActiveBlockchainProvider :: "string \<Rightarrow> error + Provider option \<times> Provider option"
  NewChainClient :: "string list \<Rightarrow> error + ChainClient"
  GetIPFromRequest :: "Request \<Rightarrow> string"
  FilterQuery :: "string \<Rightarrow> string list \<Rightarrow> string"
  json_Marshal :: "jvalue \<Rightarrow> error + string"
  json_Unmarshal :: "string \<Rightarrow> error + Response"
  GetLanguage :: "string \<Rightarrow> string"
  GetInfoFromIP :: "string \<Rightarrow> error + LocationInfo"
  GenerateId :: string
  GetCurrentTime :: string

text \<open>What a call does: it returns, or it panics.\<close>

datatype 'a outcome = Panic | Return 'a

section \<open>Canonical payload (object/record_chain.go)\<close>

text \<open>\<open>func (record *Record) getId() string\<close>: \<open>fmt.Sprintf("%s/%s", Owner, Name)\<close>.\<close>

definition getId :: "Record \<Rightarrow> string" where
  "getId record = Owner record @ ''/'' @ Name record"

text \<open>
  \<open>func (record *Record) toParam() string\<close>. \<open>record2 := *record\<close> copies the struct, so
  the eight assignments do not reach the caller's record: the model returns the payload
  only.
\<close>

definition toParam :: "env \<Rightarrow> Record \<Rightarrow> string" where
  "toParam env record =
     (let record2 = record;
          record2 = record2\<lparr>Provider := ''''\<rparr>;
          record2 = record2\<lparr>Block := ''''\<rparr>;
          record2 = record2\<lparr>Transaction := ''''\<rparr>;
          record2 = record2\<lparr>BlockHash := ''''\<rparr>;
          record2 = record2\<lparr>Provider2 := ''''\<rparr>;
          record2 = record2\<lparr>Block2 := ''''\<rparr>;
          record2 = record2\<lparr>Transaction2 := ''''\<rparr>;
          record2 = record2\<lparr>BlockHash2 := ''''\<rparr>;
          res = \<lparr>Key = getId record2,
                 Field = ''Record'',
                 Value = StructToJson env (Record_json record2)\<rparr>
      in StructToJson env (Param_json res))"

section \<open>Reading and updating records (object/record.go)\<close>

text \<open>
  \<open>func getRecord(owner string, name string) (*Record, error)\<close>. The bean is
  \<open>Record{Name: name}\<close>; on a database error the pointer to the bean is returned with
  the error.
\<close>

definition getRecord :: "store \<Rightarrow> string \<Rightarrow> string \<Rightarrow> Record option \<times> error option" where
  "getRecord db owner name =
     (if owner = '''' \<or> name = '''' then (None, None)
      else
        (case engine_Get db (Record_zero\<lparr>Name := name\<rparr>) of
           (existed, record, Some err) \<Rightarrow> (Some record, Some err)
         | (existed, record, None) \<Rightarrow>
             if existed then (Some record, None) else (None, None)))"

text \<open>
  \<open>func UpdateRecord(id string, record *Record) (bool, error)\<close>. The record is behind a
  pointer, so the model also returns the record as the caller sees it afterwards, and the
  store.
\<close>

definition UpdateRecord ::
  "env \<Rightarrow> store \<Rightarrow> string \<Rightarrow> Record \<Rightarrow> (bool \<times> error option) outcome \<times> Record \<times> store" where
  "UpdateRecord env db id' record =
     (case GetOwnerAndNameFromId env id' of
        None \<Rightarrow> (Panic, record, db)
      | Some (owner, name) \<Rightarrow>
         (case getRecord db owner name of
            (p, Some err) \<Rightarrow> (Return (False, Some err), record, db)
          | (None, None) \<Rightarrow> (Return (False, None), record, db)
          | (Some p, None) \<Rightarrow>
             (let record = (if Provider record \<noteq> Provider p
                            then record\<lparr>Block := '''', BlockHash := '''', Transaction := ''''\<rparr>
                            else record);
                  record = (if Provider2 record \<noteq> Provider2 p
                            then record\<lparr>Block2 := '''', BlockHash2 := '''', Transaction2 := ''''\<rparr>
                            else record)
              in (case engine_Update_AllCols db name record of
                    (affected, Some err, db') \<Rightarrow> (Return (False, Some err), record, db')
                  | (affected, None, db') \<Rightarrow> (Return (affected \<noteq> 0, None), record, db')))))"

text \<open>\<open>func UpdateRecordFields(id string, fields map[string]interface{}) (bool, error)\<close>.\<close>

definition UpdateRecordFields ::
  "env \<Rightarrow> store \<Rightarrow> string \<Rightarrow> (string \<rightharpoonup> string) \<Rightarrow> (bool \<times> error option) outcome \<times> store" where
  "UpdateRecordFields env db id' flds =
     (case GetOwnerAndNameFromId env id' of
        None \<Rightarrow> (Panic, db)
      | Some (owner, name) \<Rightarrow>
         (case getRecord db owner name of
            (p, Some err) \<Rightarrow> (Return (False, Some err), db)
          | (None, None) \<Rightarrow> (Return (False, None), db)
          | (Some p, None) \<Rightarrow>
             (case engine_Update_fields db name flds of
                (affected, Some err, db') \<Rightarrow> (Return (False, Some err), db')
              | (affected, None, db') \<Rightarrow> (Return (affected \<noteq> 0, None), db'))))"

text \<open>\<open>func DeleteRecord(record *Record) (bool, error)\<close>.\<close>

definition DeleteRecord :: "store \<Rightarrow> Record \<Rightarrow> (bool \<times> error option) \<times> store" where
  "DeleteRecord db record =
     (case engine_Delete db (Name record) of
        (affected, Some err, db') \<Rightarrow> ((False, Some err), db')
      | (affected, None, db') \<Rightarrow> ((affected \<noteq> 0, None), db'))"

subsection \<open>Building a record from a request\<close>

text \<open>
  \<open>strings.Replace(s, old, new, -1)\<close> for a non-empty \<open>old\<close>, the only way the code
  calls it: every occurrence is replaced, from the left, without overlap.
\<close>

fun strings_Replace :: "string \<Rightarrow> string \<Rightarrow> string \<Rightarrow> string" where
  "strings_Replace [] (c # old) new = []"
| "strings_Replace (x # s) (c # old) new =
     (if prefix (c # old) (x # s)
      then new @ strings_Replace (drop (length old) s) (c # old) new
      else x # strings_Replace s (c # old) new)"

text \<open>\<open>strings.HasSuffix\<close>, as the Go library writes it.\<close>

definition strings_HasSuffix :: "string \<Rightarrow> string \<Rightarrow> bool" where
  "strings_HasSuffix s suffix' \<longleftrightarrow>
     length s \<ge> length suffix' \<and> drop (length s - length suffix') s = suffix'"

text \<open>
  \<open>func NewRecord(ctx *context.Context) (*Record, error)\<close>. The second test of \<open>err\<close>
  after the location lookup can never fire and has no branch here.
\<close>

definition NewRecord :: "env \<Rightarrow> Context \<Rightarrow> Record option \<times> error option" where
  "NewRecord env ctx =
     (let ip = strings_Replace (GetIPFromRequest env (ctx_Request ctx)) '': '' '''';
          action = strings_Replace (Request_URL_Path (ctx_Request ctx)) ''/api/'' '''';
          requestUri = FilterQuery env (Request_RequestURI (ctx_Request ctx)) [''accessToken''];
          requestUri = (if length requestUri > 1000 then take 1000 requestUri else requestUri);
          object = (case ctx_Input_RequestBody ctx of
                      None \<Rightarrow> ''''
                    | Some body \<Rightarrow> if length body \<noteq> 0 then body else '''')
      in (case json_Marshal env (ctx_Input_Data_json ctx) of
            Inl err \<Rightarrow> (None, Some err)
          | Inr respBytes \<Rightarrow>
             (case json_Unmarshal env respBytes of
                Inl err \<Rightarrow> (None, Some err)
              | Inr resp \<Rightarrow>
                 (let language = Request_Header_Accept_Language (ctx_Request ctx);
                      language = (if length language > 2 then take 2 language else language);
                      languageCode = GetLanguage env language
                  in (case GetInfoFromIP env ip of
                        Inl err \<Rightarrow> (None, Some err)
                      | Inr locationInfo \<Rightarrow>
                         (Some (Record_zero
                            \<lparr>Name := GenerateId env,
                             CreatedTime := GetCurrentTime env,
                             ClientIp := ip,
                             User := '''',
                             Method := Request_Method (ctx_Request ctx),
                             RequestUri := requestUri,
                             Action := action,
                             Language := languageCode,
                             Region := Loc_Country locationInfo,
                             City := Loc_City locationInfo,
                             Object := object,
                             Response := ''{'' @ [CHR 0x22] @ ''status'' @ [CHR 0x22] @ '':''
                               @ [CHR 0x22] @ Status resp @ [CHR 0x22] @ '','' @ [CHR 0x22]
                               @ ''msg'' @ [CHR 0x22] @ '':'' @ [CHR 0x22] @ Msg resp
                               @ [CHR 0x22] @ ''}'',
                             IsTriggered := False\<rparr>), None))))))"

section \<open>Commit orchestration (object/record_chain.go)\<close>

text \<open>\<open>func (record *Record) getRecordProvider(chainProvider string) (*Provider, error)\<close>.\<close>

definition getRecordProvider :: "env \<Rightarrow> string \<Rightarrow> error + Provider option" where
  "getRecordProvider env chainProvider =
     (if chainProvider \<noteq> '''' then
        (case getProvider env ''admin'' chainProvider of
           Inl err \<Rightarrow> Inl err
         | Inr None \<Rightarrow> Inl (''the blockchain provider: '' @ chainProvider @ '' is not found'')
         | Inr (Some provider) \<Rightarrow> Inr (Some provider))
      else
        (case GetActiveBlockchainProvider env ''admin'' of
           Inl err \<Rightarrow> Inl err
         | Inr provider \<Rightarrow> Inr provider))"

text \<open>
  \<open>func (record *Record) getRecordChainClient(chainProvider string)\<close>: it returns either
  an error, or a client together with its provider.
\<close>

definition getRecordChainClient :: "env \<Rightarrow> string \<Rightarrow> error + ChainClient \<times> Provider" where
  "getRecordChainClient env chainProvider =
     (case getRecordProvider env chainProvider of
        Inl err \<Rightarrow> Inl err
      | Inr None \<Rightarrow> Inl ''there is no active blockchain provider''
      | Inr (Some provider) \<Rightarrow>
         (case NewChainClient env
                 [Provider_Type provider, Provider_ClientId provider,
                  Provider_ClientSecret provider, Provider_Region provider,
                  Provider_Network provider, Provider_Chain provider,
                  Provider_ProviderUrl provider, Provider_Text provider,
                  Provider_UserKey provider, Provider_UserCert provider,
                  Provider_SignKey provider, Provider_SignCert provider,
                  Provider_ContractName provider, Provider_ContractMethod provider] of
            Inl err \<Rightarrow> Inl err
          | Inr client \<Rightarrow> Inr (client, provider)))"

text \<open>
  \<open>func CommitRecord(record *Record) (bool, interface{}, error)\<close>. The result is Go's
  triple, the record as the caller sees it afterwards, and the store.
\<close>

definition already_committed :: "Record \<Rightarrow> string \<Rightarrow> error" where
  "already_committed record blockId =
     ''the record: '' @ getId record @ '' has already been committed, blockId = '' @ blockId"

definition CommitRecord ::
  "env \<Rightarrow> store \<Rightarrow> Record \<Rightarrow>
     (bool \<times> (string \<rightharpoonup> string) option \<times> error option) outcome \<times> Record \<times> store" where
  "CommitRecord env db record =
     (if Block record \<noteq> '''' then
        (Return (False, None, Some (already_committed record (Block record))), record, db)
      else
        (case getRecordChainClient env (Provider record) of
           Inl err \<Rightarrow> (Return (False, None, Some err), record, db)
         | Inr (client, provider) \<Rightarrow>
            (let record = record\<lparr>Provider := Provider_Name provider\<rparr>
             in (case Commit client (toParam env record) of
                   (blockId, transactionId, blockHash, Some err) \<Rightarrow>
                     (Return (False, None, Some err), record, db)
                 | (blockId, transactionId, blockHash, None) \<Rightarrow>
                     (let data = [''provider'' \<mapsto> Provider record,
                                  ''block'' \<mapsto> blockId,
                                  ''transaction'' \<mapsto> transactionId,
                                  ''block_hash'' \<mapsto> blockHash]
                      in (case UpdateRecordFields env db (getId record) data of
                            (Panic, db') \<Rightarrow> (Panic, record, db')
                          | (Return (affected, err), db') \<Rightarrow>
                              (Return (affected, Some data, err), record, db')))))))"

text \<open>\<open>func CommitRecordSecond(record *Record) (bool, error)\<close>.\<close>

definition CommitRecordSecond ::
  "env \<Rightarrow> store \<Rightarrow> Record \<Rightarrow> (bool \<times> error option) outcome \<times> Record \<times> store" where
  "CommitRecordSecond env db record =
     (if Block2 record \<noteq> '''' then
        (Return (False, Some (already_committed record (Block2 record))), record, db)
      else
        (case getRecordChainClient env (Provider2 record) of
           Inl err \<Rightarrow> (Return (False, Some err), record, db)
         | Inr (client, provider) \<Rightarrow>
            (let record = record\<lparr>Provider2 := Provider_Name provider\<rparr>
             in (case Commit client (toParam env record) of
                   (blockId, transactionId, blockHash, Some err) \<Rightarrow>
                     (Return (False, Some err), record, db)
                 | (blockId, transactionId, blockHash, None) \<Rightarrow>
                     (case UpdateRecordFields env db (getId record)
                             [''provider2'' \<mapsto> Provider2 record,
                              ''block2'' \<mapsto> blockId,
                              ''transaction2'' \<mapsto> transactionId,
                              ''block_hash2'' \<mapsto> blockHash] of
                        (res, db') \<Rightarrow> (res, record, db'))))))"

section \<open>Adding a record (object/record.go)\<close>

text \<open>\<open>func AddRecord(record *Record) (bool, interface{}, error)\<close>.\<close>

definition AddRecord ::
  "env \<Rightarrow> store \<Rightarrow> Record \<Rightarrow>
     (bool \<times> (string \<rightharpoonup> string) option \<times> error option) outcome \<times> Record \<times> store" where
  "AddRecord env db record =
     (if logPostOnly env \<and> Method record = ''GET'' then (Return (False, None, None), record, db)
      else if strings_HasSuffix (Action record) ''-record'' then
        (Return (False, None, None), record, db)
      else if strings_HasSuffix (Action record) ''-record-second'' then
        (Return (False, None, None), record, db)
      else
        (case (if Provider record = '''' then
                 (case GetTwoActiveBlockchainProvider env ''admin'' of
                    Inl err \<Rightarrow> Inl err
                  | Inr (providerFrist, providerSecend) \<Rightarrow>
                     (let record = (case providerFrist of
                                      Some p \<Rightarrow> record\<lparr>Provider := Provider_Name p\<rparr>
                                    | None \<Rightarrow> record);
                          record = (case providerSecend of
                                      Some p \<Rightarrow> record\<lparr>Provider2 := Provider_Name p\<rparr>
                                    | None \<Rightarrow> record)
                      in Inr record))
               else Inr record) of
           Inl err \<Rightarrow> (Return (False, None, Some err), record, db)
         | Inr record \<Rightarrow>
            (let record = record\<lparr>Owner := Organization record\<rparr>
             in (case engine_Insert db record of
                   (affected, Some err, record, db') \<Rightarrow>
                     (Return (False, None, Some err), record, db')
                 | (affected, None, record, db') \<Rightarrow>
                     if NeedCommit record then
                       (case CommitRecord env db' record of
                          (Panic, record, db'') \<Rightarrow> (Panic, record, db'')
                        | (Return (affected2, data, Some err), record, db'') \<Rightarrow>
                            (Return (False, None, Some err), record, db'')
                        | (Return (affected2, data, None), record, db'') \<Rightarrow>
                            (Return (affected2, data, None), record, db''))
                     else (Return (affected \<noteq> 0, None, None), record, db')))))"

section \<open>The Ethereum ledger client (package chain)\<close>

text \<open>
  The values of go-ethereum that the client handles. Addresses, keys and hashes are kept
  as the texts that \<open>Hex()\<close> and \<open>String()\<close> print, since the code only passes them on.
\<close>

record CallMsg =
  CallMsg_From :: string
  CallMsg_To :: string
  CallMsg_GasPrice :: int
  CallMsg_Value :: int
  CallMsg_Data :: string

record Tx =
  Tx_Nonce :: nat
  Tx_To :: string
  Tx_Value :: int
  Tx_GasLimit :: nat
  Tx_GasPrice :: int
  Tx_Data :: string

record SignedTx =
  SignedTx_Tx :: Tx
  SignedTx_Hash_Hex :: string

record Receipt =
  Receipt_BlockHash_Hex :: string
  Receipt_BlockNumber_String :: string

text \<open>
  \<open>*ethclient.Client\<close>, with the functions of go-ethereum that take it or stand beside it
  (\<open>types.SignTx\<close> with the latest signer of the chain id, \<open>bind.WaitMined\<close> under the
  two-minute context, \<open>common.HexToHash\<close>): what the node and the library answer.
\<close>

record ethclient =
  PendingNonceAt :: "string \<Rightarrow> error + nat"
  SuggestGasPrice :: "error + int"
  EstimateGas :: "CallMsg \<Rightarrow> error + nat"
  ChainID :: "error + int"
  SignTx :: "Tx \<Rightarrow> int \<Rightarrow> string \<Rightarrow> error + SignedTx"
  SendTransaction :: "SignedTx \<Rightarrow> error option"
  WaitMined :: "SignedTx \<Rightarrow> error + Receipt"
  HexToHash :: "string \<Rightarrow> string"
  TransactionReceipt :: "string \<Rightarrow> error + Receipt"
  TransactionByHash :: "string \<Rightarrow> error + Tx"

record EthereumClient =
  Client :: ethclient
  PrivateKey :: string
  FromAddress :: string

text \<open>
  \<open>func (client *EthereumClient) Commit(data string) (string, string, string, error)\<close>:
  the four results as Go returns them.
\<close>

definition EthereumClient_Commit ::
  "EthereumClient \<Rightarrow> string \<Rightarrow> string \<times> string \<times> string \<times> error option" where
  "EthereumClient_Commit client data =
     (case PendingNonceAt (Client client) (FromAddress client) of
        Inl err \<Rightarrow> ('''', '''', '''', Some err)
      | Inr nonce \<Rightarrow>
     (case SuggestGasPrice (Client client) of
        Inl err \<Rightarrow> ('''', '''', '''', Some err)
      | Inr gasPrice \<Rightarrow>
     (let value = 0;
          dataBytes = data;
          msg = \<lparr>CallMsg_From = FromAddress client,
                 CallMsg_To = FromAddress client,
                 CallMsg_GasPrice = gasPrice,
                 CallMsg_Value = value,
                 CallMsg_Data = dataBytes\<rparr>
      in
     (case EstimateGas (Client client) msg of
        Inl err \<Rightarrow> ('''', '''', '''', Some err)
      | Inr gasLimit \<Rightarrow>
     (let toAddress = FromAddress client;
          tx = \<lparr>Tx_Nonce = nonce, Tx_To = toAddress, Tx_Value = value,
                Tx_GasLimit = gasLimit, Tx_GasPrice = gasPrice, Tx_Data = dataBytes\<rparr>
      in
     (case ChainID (Client client) of
        Inl err \<Rightarrow> ('''', '''', '''', Some err)
      | Inr chainID \<Rightarrow>
     (case SignTx (Client client) tx chainID (PrivateKey client) of
        Inl err \<Rightarrow> ('''', '''', '''', Some err)
      | Inr signedTx \<Rightarrow>
     (case SendTransaction (Client client) signedTx of
        Some err \<Rightarrow> ('''', '''', '''', Some err)
      | None \<Rightarrow>
     (let txHash = SignedTx_Hash_Hex signedTx
      in
     (case WaitMined (Client client) signedTx of
        Inl err \<Rightarrow> ('''', '''', '''', Some (''transaction failed to be mined: '' @ err))
      | Inr receipt \<Rightarrow>
     (let blockHash = Receipt_BlockHash_Hex receipt;
          blockNumber = Receipt_BlockNumber_String receipt
      in (blockNumber, txHash, blockHash, None))))))))))))"

text \<open>
  \<open>func (client *EthereumClient) Query(txHash string, data string) (string, error)\<close>.
  The two verdict texts are Go raw strings that run over several lines.
\<close>

definition stars :: string where
  "stars = replicate 54 (CHR ''*'')"

definition EthereumClient_Query ::
  "EthereumClient \<Rightarrow> string \<Rightarrow> string \<Rightarrow> string \<times> error option" where
  "EthereumClient_Query client txHash data =
     (let hash = HexToHash (Client client) txHash
      in
     (case TransactionReceipt (Client client) hash of
        Inl err \<Rightarrow> ('''', Some err)
      | Inr receipt \<Rightarrow>
     (let blockId = Receipt_BlockNumber_String receipt
      in
     (case TransactionByHash (Client client) hash of
        Inl err \<Rightarrow> ('''', Some err)
      | Inr tx \<Rightarrow>
     (let chainData = Tx_Data tx;
          res = (if chainData = data
                 then ''Matched'' @ [CHR 0x0A] @ stars @ [CHR 0x0A] @ ''Data:''
                      @ [CHR 0x0A, CHR 0x0A] @ chainData
                 else ''Mismatched'' @ [CHR 0x0A] @ stars @ [CHR 0x0A] @ ''Chain data:''
                      @ [CHR 0x0A, CHR 0x0A] @ chainData @ [CHR 0x0A] @ stars @ [CHR 0x0A]
                      @ ''Local data:'' @ [CHR 0x0A, CHR 0x0A] @ data)
      in (''The query result for block ['' @ blockId @ ''] is: '' @ res, None))))))"

text \<open>The Ethereum client as a \<open>ChainClientInterface\<close>.\<close>

definition EthereumClient_interface :: "EthereumClient \<Rightarrow> ChainClient" where
  "EthereumClient_interface client =
     \<lparr>Commit = EthereumClient_Commit client, Query = EthereumClient_Query client\<rparr>"

section \<open>A sample environment\<close>

text \<open>
  Concrete collaborators, used to run the model on examples. The theorems below hold for
  every environment; the examples instantiate them here.
\<close>

text \<open>
  A sample for \<open>GetOwnerAndNameFromId\<close>: a record's id is \<open>owner/name\<close>, so the sample
  splits the id at its slashes and panics unless there are exactly two parts.
\<close>

fun split_slash :: "string \<Rightarrow> string list" where
  "split_slash [] = [[]]"
| "split_slash (c # s) =
     (if c = CHR ''/'' then [] # split_slash s
      else (case split_slash s of
              [] \<Rightarrow> [[c]]
            | token # tokens \<Rightarrow> (c # token) # tokens))"

definition sample_GetOwnerAndNameFromId :: "string \<Rightarrow> (string \<times> string) option" where
  "sample_GetOwnerAndNameFromId id' =
     (case split_slash id' of
        [owner, name] \<Rightarrow> Some (owner, name)
      | _ \<Rightarrow> None)"

text \<open>A node that mines every transaction into block 100, and one whose gas estimate fails.\<close>

definition sample_node :: ethclient where
  "sample_node =
     \<lparr>PendingNonceAt = (\<lambda>addr. Inr 7),
      SuggestGasPrice = Inr 20,
      EstimateGas = (\<lambda>msg. Inr 21000),
      ChainID = Inr 1,
      SignTx = (\<lambda>tx chainID key. Inr \<lparr>SignedTx_Tx = tx, SignedTx_Hash_Hex = ''0xabc''\<rparr>),
      SendTransaction = (\<lambda>signedTx. None),
      WaitMined = (\<lambda>signedTx.
        Inr \<lparr>Receipt_BlockHash_Hex = ''0xdef'', Receipt_BlockNumber_String = ''100''\<rparr>),
      HexToHash = (\<lambda>s. s),
      TransactionReceipt = (\<lambda>hash.
        if hash = ''0xabc''
        then Inr \<lparr>Receipt_BlockHash_Hex = ''0xdef'', Receipt_BlockNumber_String = ''100''\<rparr>
        else Inl ''not found''),
      TransactionByHash = (\<lambda>hash.
        if hash = ''0xabc''
        then Inr \<lparr>Tx_Nonce = 7, Tx_To = ''0x01'', Tx_Value = 0, Tx_GasLimit = 21000,
                  Tx_GasPrice = 20, Tx_Data = ''payload''\<rparr>
        else Inl ''not found'')\<rparr>"

definition sample_node_down :: ethclient where
  "sample_node_down = sample_node\<lparr>EstimateGas := (\<lambda>msg. Inl ''gas estimation failed'')\<rparr>"

definition sample_client :: EthereumClient where
  "sample_client = \<lparr>Client = sample_node, PrivateKey = ''key'', FromAddress = ''0x01''\<rparr>"

definition sample_client_down :: EthereumClient where
  "sample_client_down = \<lparr>Client = sample_node_down, PrivateKey = ''key'', FromAddress = ''0x01''\<rparr>"

definition sample_provider :: "string \<Rightarrow> string \<Rightarrow> Provider" where
  "sample_provider name url =
     \<lparr>Provider_Name = name, Provider_Type = ''Ethereum'', Provider_ClientId = '''',
      Provider_ClientSecret = ''key'', Provider_Region = '''', Provider_Network = '''',
      Provider_Chain = '''', Provider_ProviderUrl = url, Provider_Text = '''',
      Provider_UserKey = '''', Provider_UserCert = '''', Provider_SignKey = '''',
      Provider_SignCert = '''', Provider_ContractName = '''', Provider_ContractMethod = ''''\<rparr>"

text \<open>
  The sample encoder lists the names of the fields of an object; any function of the
  value will do, since the theorems do not look into the encoding.
\<close>

definition sample_StructToJson :: "jvalue \<Rightarrow> string" where
  "sample_StructToJson v =
     (case v of JObject members \<Rightarrow> concat (map (\<lambda>(k, x). k @ '';'') members) | _ \<Rightarrow> '''')"

definition sample_env :: env where
  "sample_env =
     \<lparr>logPostOnly = True,
      GetOwnerAndNameFromId = sample_GetOwnerAndNameFromId,
      StructToJson = sample_StructToJson,
      getProvider = (\<lambda>owner name.
        if name = ''eth-main'' then Inr (Some (sample_provider ''eth-main'' ''http://node''))
        else if name = ''eth-down'' then Inr (Some (sample_provider ''eth-down'' ''http://down''))
        else Inr None),
      GetActiveBlockchainProvider = (\<lambda>owner.
        Inr (Some (sample_provider ''eth-main'' ''http://node''))),
      GetTwoActiveBlockchainProvider = (\<lambda>owner.
        Inr (Some (sample_provider ''eth-main'' ''http://node''), None)),
      NewChainClient = (\<lambda>args.
        if args ! 6 = ''http://node'' then Inr (EthereumClient_interface sample_client)
        else if args ! 6 = ''http://down'' then Inr (EthereumClient_interface sample_client_down)
        else Inl ''unsupported provider''),
      GetIPFromRequest = (\<lambda>request. ''10.0.0.1''),
      FilterQuery = (\<lambda>uri keys. uri),
      json_Marshal = (\<lambda>v. Inr ''{}''),
      json_Unmarshal = (\<lambda>bytes. Inr \<lparr>Status = ''ok'', Msg = ''''\<rparr>),
      GetLanguage = (\<lambda>language. language),
      GetInfoFromIP = (\<lambda>ip. Inr \<lparr>Loc_Country = ''NZ'', Loc_City = ''Wellington''\<rparr>),
      GenerateId = ''rec-3'',
      GetCurrentTime = ''2024-01-01T00:00:00Z''\<rparr>"

text \<open>
  Two stored records with the same name under different owners, and a third one; the
  first is anchored in block 12345 of the primary chain.
\<close>

definition sample_record :: "int \<Rightarrow> string \<Rightarrow> string \<Rightarrow> Record" where
  "sample_record i owner name =
     Record_zero\<lparr>RecordId := i, Owner := owner, Name := name, Organization := owner,
                  Method := ''POST'', Action := ''add-store''\<rparr>"

definition sample_anchored :: Record where
  "sample_anchored =
     (sample_record 1 ''org1'' ''rec-1'')
       \<lparr>Provider := ''eth-main'', Block := ''12345'', BlockHash := ''0x77'',
        Transaction := ''0x88''\<rparr>"

definition sample_store :: store where
  "sample_store =
     \<lparr>rows = [sample_anchored,
              sample_record 2 ''org2'' ''rec-1'',
              sample_record 3 ''org1'' ''rec-2''],
      fault = (\<lambda>op. None)\<rparr>"

text \<open>A POST request to \<open>/api/add-store\<close> with the given request URI.\<close>

definition sample_ctx :: "string \<Rightarrow> Context" where
  "sample_ctx uri =
     \<lparr>ctx_Request = \<lparr>Request_Method = ''POST'', Request_URL_Path = ''/api/add-store'',
                      Request_RequestURI = uri, Request_Header_Accept_Language = ''en-US''\<rparr>,
      ctx_Input_RequestBody = Some ''{}'',
      ctx_Input_Data_json = JNull\<rparr>"

section \<open>Theorems\<close>

subsection \<open>Helper lemmas\<close>

lemma toParam_Provider_upd: "toParam env (r\<lparr>Provider := p\<rparr>) = toParam env r"
  by (simp add: toParam_def getId_def Record_json_def)

lemma toParam_Provider2_upd: "toParam env (r\<lparr>Provider2 := p\<rparr>) = toParam env r"
  by (simp add: toParam_def getId_def Record_json_def)

lemma EthereumClient_Commit_error:
  "EthereumClient_Commit c data = (b, t, h, Some e) \<Longrightarrow> b = '''' \<and> t = '''' \<and> h = ''''"
  by (auto simp: EthereumClient_Commit_def Let_def split: sum.splits option.splits)

lemma sample_down_client:
  "getRecordChainClient sample_env ''eth-down'' =
     Inr (EthereumClient_interface sample_client_down, sample_provider ''eth-down'' ''http://down'')"
  by (simp add: getRecordChainClient_def getRecordProvider_def sample_env_def sample_provider_def)

lemma sample_down_Commit:
  "EthereumClient_Commit sample_client_down data = ('''', '''', '''', Some ''gas estimation failed'')"
  by (simp add: EthereumClient_Commit_def sample_client_down_def sample_node_down_def sample_node_def)

lemma bean_matches_name:
  "name \<noteq> '''' \<Longrightarrow> bean_matches (Record_zero\<lparr>Name := name\<rparr>) row \<longleftrightarrow> Name row = name"
  by (simp add: bean_matches_def Record_zero_def)

lemma find_bean_name:
  "name \<noteq> '''' \<Longrightarrow>
     find (bean_matches (Record_zero\<lparr>Name := name\<rparr>)) xs = find (\<lambda>row. Name row = name) xs"
  by (induction xs) (simp_all add: bean_matches_name)

lemma getRecord_by_name:
  "owner \<noteq> '''' \<Longrightarrow> name \<noteq> '''' \<Longrightarrow>
     getRecord db owner name =
       (case fault db DbGet of
          Some err \<Rightarrow> (Some (Record_zero\<lparr>Name := name\<rparr>), Some err)
        | None \<Rightarrow> (find (\<lambda>row. Name row = name) (rows db), None))"
  by (simp add: getRecord_def engine_Get_def find_bean_name split: option.splits)

lemma find_Some_name:
  "find (\<lambda>row. Name row = name) xs = Some p \<Longrightarrow> p \<in> set xs \<and> Name p = name"
  by (induction xs) (auto split: if_splits)

lemma find_None_name:
  "find (\<lambda>row. Name row = name) xs = None \<longleftrightarrow> (\<forall>row\<in>set xs. Name row \<noteq> name)"
  by (induction xs) auto

lemma UpdateRecordFields_found:
  assumes "GetOwnerAndNameFromId env i = Some (owner, name)"
    and "owner \<noteq> ''''" and "name \<noteq> ''''"
    and "fault db DbGet = None" and "fault db DbUpdate = None"
    and "\<exists>row\<in>set (rows db). Name row = name"
  shows "UpdateRecordFields env db i flds =
           (Return (True, None),
            db\<lparr>rows := map (\<lambda>row. if Name row = name then set_columns flds row else row) (rows db)\<rparr>)"
proof -
  from assms(6) obtain p where "find (\<lambda>row. Name row = name) (rows db) = Some p"
    using find_None_name [of name "rows db"]
    by (cases "find (\<lambda>row. Name row = name) (rows db)") auto
  with assms show ?thesis
    by (simp add: UpdateRecordFields_def getRecord_by_name engine_Update_fields_def
        filter_empty_conv)
qed

lemma UpdateRecordFields_frame:
  "UpdateRecordFields env db i flds = (res, db') \<Longrightarrow>
     fault db' = fault db \<and>
     list_all2 (\<lambda>row row'. row' = row \<or> row' = set_columns flds row) (rows db) (rows db')"
  by (auto simp: UpdateRecordFields_def engine_Update_fields_def list_all2_map2 list_all2_same
      split: option.splits prod.splits if_splits)

lemma set_columns_primary:
  "set_columns [''provider'' \<mapsto> p, ''block'' \<mapsto> b, ''transaction'' \<mapsto> t, ''block_hash'' \<mapsto> h] row
     = row\<lparr>Provider := p, Block := b, Transaction := t, BlockHash := h\<rparr>"
  by (simp add: set_columns_def col_def)

lemma set_columns_secondary:
  "set_columns [''provider2'' \<mapsto> p, ''block2'' \<mapsto> b, ''transaction2'' \<mapsto> t, ''block_hash2'' \<mapsto> h] row
     = row\<lparr>Provider2 := p, Block2 := b, Transaction2 := t, BlockHash2 := h\<rparr>"
  by (simp add: set_columns_def col_def)

lemma dom_primary:
  "dom [''provider'' \<mapsto> p, ''block'' \<mapsto> b, ''transaction'' \<mapsto> t, ''block_hash'' \<mapsto> h]
     = {''provider'', ''block'', ''transaction'', ''block_hash''}"
  by auto

lemma dom_secondary:
  "dom [''provider2'' \<mapsto> p, ''block2'' \<mapsto> b, ''transaction2'' \<mapsto> t, ''block_hash2'' \<mapsto> h]
     = {''provider2'', ''block2'', ''transaction2'', ''block_hash2''}"
  by auto

lemma getId_Provider_upd: "getId (r\<lparr>Provider := p\<rparr>) = getId r"
  and getId_Provider2_upd: "getId (r\<lparr>Provider2 := p\<rparr>) = getId r"
  by (simp_all add: getId_def)

lemma sample_main_client:
  "getRecordChainClient sample_env '''' =
     Inr (EthereumClient_interface sample_client, sample_provider ''eth-main'' ''http://node'')"
  "getRecordChainClient sample_env ''eth-main'' =
     Inr (EthereumClient_interface sample_client, sample_provider ''eth-main'' ''http://node'')"
  by (simp_all add: getRecordChainClient_def getRecordProvider_def sample_env_def sample_provider_def)

lemma sample_Commit:
  "EthereumClient_Commit sample_client data = (''100'', ''0xabc'', ''0xdef'', None)"
  by (simp add: EthereumClient_Commit_def sample_client_def sample_node_def)

lemma sample_split:
  "GetOwnerAndNameFromId sample_env ''org1/rec-2'' = Some (''org1'', ''rec-2'')"
  "GetOwnerAndNameFromId sample_env ''org1/rec-1'' = Some (''org1'', ''rec-1'')"
  "GetOwnerAndNameFromId sample_env ''org2/rec-1'' = Some (''org2'', ''rec-1'')"
  by (simp_all add: sample_env_def sample_GetOwnerAndNameFromId_def)

lemma sample_names:
  "Name sample_anchored = ''rec-1''" "Owner sample_anchored = ''org1''"
  "Name (sample_record i owner name) = name" "Owner (sample_record i owner name) = owner"
  by (simp_all add: sample_anchored_def sample_record_def)

lemma sample_faults: "fault sample_store op = None"
  by (simp add: sample_store_def)

lemma sample_rows:
  "rows sample_store = [sample_anchored, sample_record 2 ''org2'' ''rec-1'', sample_record 3 ''org1'' ''rec-2'']"
  by (simp add: sample_store_def)

lemma getRecord_Some_name:
  "getRecord db owner name = (Some p, None) \<Longrightarrow>
     fault db DbGet = None \<and> p \<in> set (rows db) \<and> Name p = name"
proof -
  assume g: "getRecord db owner name = (Some p, None)"
  then have ne: "owner \<noteq> ''''" "name \<noteq> ''''"
    by (auto simp: getRecord_def split: if_splits)
  from g getRecord_by_name [OF ne, of db]
  have "fault db DbGet = None" and "find (\<lambda>row. Name row = name) (rows db) = Some p"
    by (auto split: option.splits)
  then show ?thesis
    using find_Some_name [of name "rows db" p] by simp
qed

lemma set_columns_block: "set_columns [''block'' \<mapsto> v] row = row\<lparr>Block := v\<rparr>"
  by (simp add: set_columns_def col_def)

subsection \<open>The claims\<close>

text \<open>
  Claim C1. A record whose primary block is set is rejected by CommitRecord: the call
  returns false, no data and the error "the record: owner/name has already been committed,
  blockId = " followed by the block id; the caller's record (hence its provider, block,
  block hash and transaction) and the store are what they were. CommitRecordSecond does
  the same on the secondary block, whatever the primary slot holds.
\<close>

theorem commit_twice_rejected:
  "(Block r \<noteq> '''' \<longrightarrow>
      CommitRecord env db r =
        (Return (False, None,
           Some (''the record: '' @ Owner r @ ''/'' @ Name r
                 @ '' has already been committed, blockId = '' @ Block r)), r, db))
   \<and> (Block2 r \<noteq> '''' \<longrightarrow>
      CommitRecordSecond env db r =
        (Return (False,
           Some (''the record: '' @ Owner r @ ''/'' @ Name r
                 @ '' has already been committed, blockId = '' @ Block2 r)), r, db))"
  by (simp add: CommitRecord_def CommitRecordSecond_def already_committed_def getId_def)

theorem commit_twice_rejected_witness:
  "Block sample_anchored = ''12345''
   \<and> CommitRecord sample_env sample_store sample_anchored =
        (Return (False, None,
           Some ''the record: org1/rec-1 has already been committed, blockId = 12345''),
         sample_anchored, sample_store)
   \<and> CommitRecordSecond sample_env sample_store (sample_anchored\<lparr>Block2 := ''7''\<rparr>) =
        (Return (False,
           Some ''the record: org1/rec-1 has already been committed, blockId = 7''),
         sample_anchored\<lparr>Block2 := ''7''\<rparr>, sample_store)"
proof -
  let ?r = "sample_anchored"
  have b: "Block ?r = ''12345''"
    by (simp add: sample_anchored_def)
  have o: "Owner ?r = ''org1''" "Name ?r = ''rec-1''"
    by (simp_all add: sample_anchored_def sample_record_def)
  from b have h1: "Block ?r \<noteq> ''''" by simp
  have h2: "Block2 (?r\<lparr>Block2 := ''7''\<rparr>) \<noteq> ''''" by simp
  from commit_twice_rejected [of ?r sample_env sample_store] h1
  have c1: "CommitRecord sample_env sample_store ?r =
        (Return (False, None,
           Some ''the record: org1/rec-1 has already been committed, blockId = 12345''),
         ?r, sample_store)"
    by (simp add: b o)
  from commit_twice_rejected [of "?r\<lparr>Block2 := ''7''\<rparr>" sample_env sample_store] h2
  have c2: "CommitRecordSecond sample_env sample_store (?r\<lparr>Block2 := ''7''\<rparr>) =
        (Return (False,
           Some ''the record: org1/rec-1 has already been committed, blockId = 7''),
         ?r\<lparr>Block2 := ''7''\<rparr>, sample_store)"
    by (simp add: o)
  from b c1 c2 show ?thesis by simp
qed

text \<open>
  Claim C2. Canonicalization does not depend on the anchoring state: the payload of a
  record equals the payload of the record with the eight anchoring fields (Provider,
  Block, BlockHash, Transaction, Provider2, Block2, BlockHash2, Transaction2) cleared, and
  therefore the payload of the record with those eight fields set to any values at all
  (the record after it has been anchored) equals the payload of the record itself.
\<close>

theorem toParam_ignores_anchoring:
  "toParam env r =
     toParam env (r\<lparr>Provider := '''', Block := '''', BlockHash := '''', Transaction := '''',
                    Provider2 := '''', Block2 := '''', BlockHash2 := '''', Transaction2 := ''''\<rparr>)
   \<and> toParam env (r\<lparr>Provider := p1, Block := b1, BlockHash := h1, Transaction := t1,
                      Provider2 := p2, Block2 := b2, BlockHash2 := h2, Transaction2 := t2\<rparr>)
       = toParam env r"
  by (simp add: toParam_def getId_def Record_json_def)

text \<open>
  Claim C3. The canonical payload is the encoding of an object with exactly the three
  fields key, field and value, in this order: key is owner, a slash, name; field is the
  text Record; value is the encoding of the record whose eight anchoring fields are the
  empty string and whose other twenty fields are those of the record.
\<close>

theorem toParam_shape:
  "toParam env r =
     StructToJson env (JObject
       [(''key'', JString (Owner r @ ''/'' @ Name r)),
        (''field'', JString ''Record''),
        (''value'', JString (StructToJson env (JObject
           [(''id'', JInt (RecordId r)),
            (''owner'', JString (Owner r)),
            (''name'', JString (Name r)),
            (''createdTime'', JString (CreatedTime r)),
            (''organization'', JString (Organization r)),
            (''clientIp'', JString (ClientIp r)),
            (''userAgent'', JString (UserAgent r)),
            (''user'', JString (User r)),
            (''method'', JString (Method r)),
            (''requestUri'', JString (RequestUri r)),
            (''action'', JString (Action r)),
            (''language'', JString (Language r)),
            (''region'', JString (Region r)),
            (''city'', JString (City r)),
            (''unit'', JString (Unit r)),
            (''section'', JString (Section r)),
            (''object'', JString (Object r)),
            (''response'', JString (Response r)),
            (''provider'', JString ''''),
            (''block'', JString ''''),
            (''blockHash'', JString ''''),
            (''transaction'', JString ''''),
            (''provider2'', JString ''''),
            (''block2'', JString ''''),
            (''blockHash2'', JString ''''),
            (''transaction2'', JString ''''),
            (''isTriggered'', JBool (IsTriggered r)),
            (''needCommit'', JBool (NeedCommit r))])))])"
  by (simp add: toParam_def getId_def Record_json_def Param_json_def)

text \<open>
  Claim C4. After a successful ledger commit, what CommitRecord does to the store is what
  the partial update UpdateRecordFields does with the field map of exactly four keys,
  provider, block, transaction and block_hash, bound to the provider name and the three
  identifiers. Every row of the store is afterwards either what it was or what it was
  with Provider, Block, Transaction and BlockHash set to these values: no row is added or
  removed and no other field of any row changes. When the id of the record splits into
  its non-empty owner and name, the database answers and a row has that name, the call
  returns true and exactly the rows of that name carry the four new values.
  CommitRecordSecond does the same with provider2, block2, transaction2 and block_hash2,
  that is Provider2, Block2, Transaction2 and BlockHash2. The two sets of keys have no
  element in common.
\<close>

theorem commit_persists_slot_fields:
  "(Block r = '''' \<and> getRecordChainClient env (Provider r) = Inr (client, provider)
      \<and> Commit client (toParam env r) = (b, t, h, None)
      \<and> CommitRecord env db r = (res, r', db') \<longrightarrow>
      r' = r\<lparr>Provider := Provider_Name provider\<rparr>
      \<and> db' = snd (UpdateRecordFields env db (getId r)
                      [''provider'' \<mapsto> Provider_Name provider, ''block'' \<mapsto> b,
                       ''transaction'' \<mapsto> t, ''block_hash'' \<mapsto> h])
      \<and> dom [''provider'' \<mapsto> Provider_Name provider, ''block'' \<mapsto> b,
                       ''transaction'' \<mapsto> t, ''block_hash'' \<mapsto> h]
          = {''provider'', ''block'', ''transaction'', ''block_hash''}
      \<and> fault db' = fault db
      \<and> list_all2 (\<lambda>row row'. row' = row \<or>
            row' = row\<lparr>Provider := Provider_Name provider, Block := b, Transaction := t,
                        BlockHash := h\<rparr>) (rows db) (rows db')
      \<and> (GetOwnerAndNameFromId env (getId r) = Some (Owner r, Name r)
           \<and> Owner r \<noteq> '''' \<and> Name r \<noteq> ''''
           \<and> fault db DbGet = None \<and> fault db DbUpdate = None
           \<and> (\<exists>row\<in>set (rows db). Name row = Name r) \<longrightarrow>
           res = Return (True, Some [''provider'' \<mapsto> Provider_Name provider, ''block'' \<mapsto> b,
                                     ''transaction'' \<mapsto> t, ''block_hash'' \<mapsto> h], None)
           \<and> rows db' = map (\<lambda>row. if Name row = Name r
                               then row\<lparr>Provider := Provider_Name provider, Block := b,
                                         Transaction := t, BlockHash := h\<rparr>
                               else row) (rows db)))
   \<and> (Block2 r = '''' \<and> getRecordChainClient env (Provider2 r) = Inr (client, provider)
      \<and> Commit client (toParam env r) = (b, t, h, None)
      \<and> CommitRecordSecond env db r = (res2, r', db') \<longrightarrow>
      r' = r\<lparr>Provider2 := Provider_Name provider\<rparr>
      \<and> db' = snd (UpdateRecordFields env db (getId r)
                      [''provider2'' \<mapsto> Provider_Name provider, ''block2'' \<mapsto> b,
                       ''transaction2'' \<mapsto> t, ''block_hash2'' \<mapsto> h])
      \<and> dom [''provider2'' \<mapsto> Provider_Name provider, ''block2'' \<mapsto> b,
                       ''transaction2'' \<mapsto> t, ''block_hash2'' \<mapsto> h]
          = {''provider2'', ''block2'', ''transaction2'', ''block_hash2''}
      \<and> fault db' = fault db
      \<and> list_all2 (\<lambda>row row'. row' = row \<or>
            row' = row\<lparr>Provider2 := Provider_Name provider, Block2 := b, Transaction2 := t,
                        BlockHash2 := h\<rparr>) (rows db) (rows db')
      \<and> (GetOwnerAndNameFromId env (getId r) = Some (Owner r, Name r)
           \<and> Owner r \<noteq> '''' \<and> Name r \<noteq> ''''
           \<and> fault db DbGet = None \<and> fault db DbUpdate = None
           \<and> (\<exists>row\<in>set (rows db). Name row = Name r) \<longrightarrow>
           res2 = Return (True, None)
           \<and> rows db' = map (\<lambda>row. if Name row = Name r
                               then row\<lparr>Provider2 := Provider_Name provider, Block2 := b,
                                         Transaction2 := t, BlockHash2 := h\<rparr>
                               else row) (rows db)))
   \<and> {''provider'', ''block'', ''transaction'', ''block_hash''}
        \<inter> {''provider2'', ''block2'', ''transaction2'', ''block_hash2''} = {}"
proof (intro conjI impI; (elim conjE)?)
  show "{''provider'', ''block'', ''transaction'', ''block_hash''}
        \<inter> {''provider2'', ''block2'', ''transaction2'', ''block_hash2''} = {}"
    by simp
next
  let ?m = "[''provider'' \<mapsto> Provider_Name provider, ''block'' \<mapsto> b,
             ''transaction'' \<mapsto> t, ''block_hash'' \<mapsto> h]"
  assume a: "Block r = ''''" "getRecordChainClient env (Provider r) = Inr (client, provider)"
    "Commit client (toParam env r) = (b, t, h, None)"
    "CommitRecord env db r = (res, r', db')"
  obtain ures udb where u: "UpdateRecordFields env db (getId r) ?m = (ures, udb)"
    by (cases "UpdateRecordFields env db (getId r) ?m")
  from a u have r': "r' = r\<lparr>Provider := Provider_Name provider\<rparr>" and db': "db' = udb"
    and res: "res = (case ures of Panic \<Rightarrow> Panic
                     | Return (affected, err) \<Rightarrow> Return (affected, Some ?m, err))"
    by (cases ures; auto simp: CommitRecord_def toParam_Provider_upd getId_Provider_upd
        Let_def)+
  show "r' = r\<lparr>Provider := Provider_Name provider\<rparr>" by (rule r')
  show "db' = snd (UpdateRecordFields env db (getId r) ?m)"
    using u db' by simp
  show "dom ?m = {''provider'', ''block'', ''transaction'', ''block_hash''}"
    by (rule dom_primary)
  from UpdateRecordFields_frame [OF u] db'
  show "fault db' = fault db"
    and "list_all2 (\<lambda>row row'. row' = row \<or>
            row' = row\<lparr>Provider := Provider_Name provider, Block := b, Transaction := t,
                        BlockHash := h\<rparr>) (rows db) (rows db')"
    by (simp_all add: set_columns_primary)
  {
    assume f: "GetOwnerAndNameFromId env (getId r) = Some (Owner r, Name r)"
      "Owner r \<noteq> ''''" "Name r \<noteq> ''''" "fault db DbGet = None" "fault db DbUpdate = None"
      "\<exists>row\<in>set (rows db). Name row = Name r"
    from UpdateRecordFields_found [OF f, of ?m] u
    have "ures = Return (True, None)"
      and "udb = db\<lparr>rows := map (\<lambda>row. if Name row = Name r then set_columns ?m row else row) (rows db)\<rparr>"
      by simp_all
    with res db'
    show "res = Return (True, Some ?m, None)"
      and "rows db' = map (\<lambda>row. if Name row = Name r
                               then row\<lparr>Provider := Provider_Name provider, Block := b,
                                         Transaction := t, BlockHash := h\<rparr>
                               else row) (rows db)"
      by (simp_all add: set_columns_primary)
  }
next
  let ?m = "[''provider2'' \<mapsto> Provider_Name provider, ''block2'' \<mapsto> b,
             ''transaction2'' \<mapsto> t, ''block_hash2'' \<mapsto> h]"
  assume a: "Block2 r = ''''" "getRecordChainClient env (Provider2 r) = Inr (client, provider)"
    "Commit client (toParam env r) = (b, t, h, None)"
    "CommitRecordSecond env db r = (res2, r', db')"
  obtain ures udb where u: "UpdateRecordFields env db (getId r) ?m = (ures, udb)"
    by (cases "UpdateRecordFields env db (getId r) ?m")
  from a u have r': "r' = r\<lparr>Provider2 := Provider_Name provider\<rparr>" and db': "db' = udb"
    and res: "res2 = ures"
    by (auto simp: CommitRecordSecond_def toParam_Provider2_upd getId_Provider2_upd Let_def)
  show "r' = r\<lparr>Provider2 := Provider_Name provider\<rparr>" by (rule r')
  show "db' = snd (UpdateRecordFields env db (getId r) ?m)"
    using u db' by simp
  show "dom ?m = {''provider2'', ''block2'', ''transaction2'', ''block_hash2''}"
    by (rule dom_secondary)
  from UpdateRecordFields_frame [OF u] db'
  show "fault db' = fault db"
    and "list_all2 (\<lambda>row row'. row' = row \<or>
            row' = row\<lparr>Provider2 := Provider_Name provider, Block2 := b, Transaction2 := t,
                        BlockHash2 := h\<rparr>) (rows db) (rows db')"
    by (simp_all add: set_columns_secondary)
  {
    assume f: "GetOwnerAndNameFromId env (getId r) = Some (Owner r, Name r)"
      "Owner r \<noteq> ''''" "Name r \<noteq> ''''" "fault db DbGet = None" "fault db DbUpdate = None"
      "\<exists>row\<in>set (rows db). Name row = Name r"
    from UpdateRecordFields_found [OF f, of ?m] u
    have "ures = Return (True, None)"
      and "udb = db\<lparr>rows := map (\<lambda>row. if Name row = Name r then set_columns ?m row else row) (rows db)\<rparr>"
      by simp_all
    with res db'
    show "res2 = Return (True, None)"
      and "rows db' = map (\<lambda>row. if Name row = Name r
                               then row\<lparr>Provider2 := Provider_Name provider, Block2 := b,
                                         Transaction2 := t, BlockHash2 := h\<rparr>
                               else row) (rows db)"
      by (simp_all add: set_columns_secondary)
  }
qed

theorem commit_persists_slot_fields_witness:
  "fst (CommitRecord sample_env sample_store (sample_record 3 ''org1'' ''rec-2'')) =
     Return (True, Some [''provider'' \<mapsto> ''eth-main'', ''block'' \<mapsto> ''100'',
                         ''transaction'' \<mapsto> ''0xabc'', ''block_hash'' \<mapsto> ''0xdef''], None)
   \<and> rows (snd (snd (CommitRecord sample_env sample_store (sample_record 3 ''org1'' ''rec-2'')))) =
       [sample_anchored, sample_record 2 ''org2'' ''rec-1'',
        (sample_record 3 ''org1'' ''rec-2'')
          \<lparr>Provider := ''eth-main'', Block := ''100'', Transaction := ''0xabc'',
           BlockHash := ''0xdef''\<rparr>]
   \<and> fst (CommitRecordSecond sample_env sample_store (sample_record 3 ''org1'' ''rec-2'')) =
       Return (True, None)
   \<and> rows (snd (snd (CommitRecordSecond sample_env sample_store (sample_record 3 ''org1'' ''rec-2'')))) =
       [sample_anchored, sample_record 2 ''org2'' ''rec-1'',
        (sample_record 3 ''org1'' ''rec-2'')
          \<lparr>Provider2 := ''eth-main'', Block2 := ''100'', Transaction2 := ''0xabc'',
           BlockHash2 := ''0xdef''\<rparr>]"
proof -
  let ?r = "sample_record 3 ''org1'' ''rec-2''"
  let ?c = "EthereumClient_interface sample_client"
  let ?p = "sample_provider ''eth-main'' ''http://node''"
  let ?X = "CommitRecord sample_env sample_store ?r"
  let ?Y = "CommitRecordSecond sample_env sample_store ?r"
  have b: "Block ?r = ''''" "Block2 ?r = ''''" "Provider ?r = ''''" "Provider2 ?r = ''''"
    by (simp_all add: sample_record_def Record_zero_def)
  have g: "getRecordChainClient sample_env (Provider ?r) = Inr (?c, ?p)"
    "getRecordChainClient sample_env (Provider2 ?r) = Inr (?c, ?p)"
    by (simp_all add: b sample_main_client)
  have k: "Commit ?c (toParam sample_env ?r) = (''100'', ''0xabc'', ''0xdef'', None)"
    by (simp add: EthereumClient_interface_def sample_Commit)
  have n: "Provider_Name ?p = ''eth-main''" by (simp add: sample_provider_def)
  have x: "?X = (fst ?X, fst (snd ?X), snd (snd ?X))"
    and y: "?Y = (fst ?Y, fst (snd ?Y), snd (snd ?Y))"
    by simp_all
  have i: "GetOwnerAndNameFromId sample_env (getId ?r) = Some (Owner ?r, Name ?r)"
    by (simp add: getId_def sample_names sample_split)
  have o: "Owner ?r \<noteq> ''''" "Name ?r \<noteq> ''''" by (simp_all add: sample_names)
  have e: "\<exists>row\<in>set (rows sample_store). Name row = Name ?r"
    by (simp add: sample_rows sample_names)
  have found: "GetOwnerAndNameFromId sample_env (getId ?r) = Some (Owner ?r, Name ?r)
      \<and> Owner ?r \<noteq> '''' \<and> Name ?r \<noteq> ''''
      \<and> fault sample_store DbGet = None \<and> fault sample_store DbUpdate = None
      \<and> (\<exists>row\<in>set (rows sample_store). Name row = Name ?r)"
    by (intro conjI i o e sample_faults)
  note T = commit_persists_slot_fields [of ?r sample_env ?c ?p "''100''" "''0xabc''" "''0xdef''"
      sample_store "fst ?X" "fst (snd ?X)" "snd (snd ?X)" "fst ?Y"]
  have h1: "Block ?r = '''' \<and> getRecordChainClient sample_env (Provider ?r) = Inr (?c, ?p)
      \<and> Commit ?c (toParam sample_env ?r) = (''100'', ''0xabc'', ''0xdef'', None)
      \<and> ?X = (fst ?X, fst (snd ?X), snd (snd ?X))"
    by (intro conjI b(1) g(1) k x)
  from T [THEN conjunct1, THEN mp, OF h1]
  have "GetOwnerAndNameFromId sample_env (getId ?r) = Some (Owner ?r, Name ?r)
      \<and> Owner ?r \<noteq> '''' \<and> Name ?r \<noteq> ''''
      \<and> fault sample_store DbGet = None \<and> fault sample_store DbUpdate = None
      \<and> (\<exists>row\<in>set (rows sample_store). Name row = Name ?r) \<longrightarrow>
      fst ?X = Return (True, Some [''provider'' \<mapsto> Provider_Name ?p, ''block'' \<mapsto> ''100'',
                         ''transaction'' \<mapsto> ''0xabc'', ''block_hash'' \<mapsto> ''0xdef''], None)
      \<and> rows (snd (snd ?X)) = map (\<lambda>row. if Name row = Name ?r
                               then row\<lparr>Provider := Provider_Name ?p, Block := ''100'',
                                         Transaction := ''0xabc'', BlockHash := ''0xdef''\<rparr>
                               else row) (rows sample_store)"
    by (elim conjE)
  from this [THEN mp, OF found]
  have c: "fst ?X = Return (True, Some [''provider'' \<mapsto> ''eth-main'', ''block'' \<mapsto> ''100'',
                         ''transaction'' \<mapsto> ''0xabc'', ''block_hash'' \<mapsto> ''0xdef''], None)
      \<and> rows (snd (snd ?X)) = [sample_anchored, sample_record 2 ''org2'' ''rec-1'',
        ?r\<lparr>Provider := ''eth-main'', Block := ''100'', Transaction := ''0xabc'',
           BlockHash := ''0xdef''\<rparr>]"
    by (simp add: n sample_rows sample_names)
  have h2: "Block2 ?r = '''' \<and> getRecordChainClient sample_env (Provider2 ?r) = Inr (?c, ?p)
      \<and> Commit ?c (toParam sample_env ?r) = (''100'', ''0xabc'', ''0xdef'', None)
      \<and> ?Y = (fst ?Y, fst (snd ?Y), snd (snd ?Y))"
    by (intro conjI b(2) g(2) k y)
  note T2 = commit_persists_slot_fields [of ?r sample_env ?c ?p "''100''" "''0xabc''" "''0xdef''"
      sample_store "fst ?X" "fst (snd ?Y)" "snd (snd ?Y)" "fst ?Y"]
  from T2 [THEN conjunct2, THEN conjunct1, THEN mp, OF h2]
  have "GetOwnerAndNameFromId sample_env (getId ?r) = Some (Owner ?r, Name ?r)
      \<and> Owner ?r \<noteq> '''' \<and> Name ?r \<noteq> ''''
      \<and> fault sample_store DbGet = None \<and> fault sample_store DbUpdate = None
      \<and> (\<exists>row\<in>set (rows sample_store). Name row = Name ?r) \<longrightarrow>
      fst ?Y = Return (True, None)
      \<and> rows (snd (snd ?Y)) = map (\<lambda>row. if Name row = Name ?r
                               then row\<lparr>Provider2 := Provider_Name ?p, Block2 := ''100'',
                                         Transaction2 := ''0xabc'', BlockHash2 := ''0xdef''\<rparr>
                               else row) (rows sample_store)"
    by (elim conjE)
  from this [THEN mp, OF found]
  have d: "fst ?Y = Return (True, None)
      \<and> rows (snd (snd ?Y)) = [sample_anchored, sample_record 2 ''org2'' ''rec-1'',
        ?r\<lparr>Provider2 := ''eth-main'', Block2 := ''100'', Transaction2 := ''0xabc'',
           BlockHash2 := ''0xdef''\<rparr>]"
    by (simp add: n sample_rows sample_names)
  from c d show ?thesis by (intro conjI) (elim conjE, assumption)+
qed

text \<open>
  Claim C5. When the ledger client's Commit returns an error, CommitRecord returns false,
  no data and that same error, and the store is what it was; the caller's record differs
  from the one passed in only by the provider name bound before the ledger call, so its
  block (the write-once guard), block hash and transaction are still empty or as they
  were. CommitRecordSecond does the same on the secondary slot. And whenever the Ethereum
  client's Commit returns an error, at whatever stage, the block id, the transaction id
  and the block hash it returns are all the empty string.
\<close>

theorem commit_failure_atomic:
  "(Block r = '''' \<and> getRecordChainClient env (Provider r) = Inr (client, provider)
      \<and> Commit client (toParam env r) = (b, t, h, Some err) \<longrightarrow>
      CommitRecord env db r =
        (Return (False, None, Some err), r\<lparr>Provider := Provider_Name provider\<rparr>, db))
   \<and> (Block2 r = '''' \<and> getRecordChainClient env (Provider2 r) = Inr (client, provider)
      \<and> Commit client (toParam env r) = (b, t, h, Some err) \<longrightarrow>
      CommitRecordSecond env db r =
        (Return (False, Some err), r\<lparr>Provider2 := Provider_Name provider\<rparr>, db))
   \<and> (EthereumClient_Commit c data = (b', t', h', Some err') \<longrightarrow>
        b' = '''' \<and> t' = '''' \<and> h' = '''')"
  by (auto simp: CommitRecord_def CommitRecordSecond_def toParam_Provider_upd
      toParam_Provider2_upd dest: EthereumClient_Commit_error)

theorem commit_failure_atomic_witness:
  "CommitRecord sample_env sample_store ((sample_record 3 ''org1'' ''rec-2'')\<lparr>Provider := ''eth-down''\<rparr>) =
     (Return (False, None, Some ''gas estimation failed''),
      (sample_record 3 ''org1'' ''rec-2'')\<lparr>Provider := ''eth-down''\<rparr>, sample_store)
   \<and> CommitRecordSecond sample_env sample_store ((sample_record 3 ''org1'' ''rec-2'')\<lparr>Provider2 := ''eth-down''\<rparr>) =
     (Return (False, Some ''gas estimation failed''),
      (sample_record 3 ''org1'' ''rec-2'')\<lparr>Provider2 := ''eth-down''\<rparr>, sample_store)
   \<and> snd (snd (snd (EthereumClient_Commit sample_client_down ''payload''))) = Some ''gas estimation failed''
   \<and> fst (EthereumClient_Commit sample_client_down ''payload'') = ''''
   \<and> fst (snd (EthereumClient_Commit sample_client_down ''payload'')) = ''''
   \<and> fst (snd (snd (EthereumClient_Commit sample_client_down ''payload''))) = ''''"
proof -
  let ?r = "(sample_record 3 ''org1'' ''rec-2'')\<lparr>Provider := ''eth-down''\<rparr>"
  let ?r2 = "(sample_record 3 ''org1'' ''rec-2'')\<lparr>Provider2 := ''eth-down''\<rparr>"
  let ?c = "EthereumClient_interface sample_client_down"
  let ?p = "sample_provider ''eth-down'' ''http://down''"
  let ?res = "EthereumClient_Commit sample_client_down ''payload''"
  have b: "Block ?r = ''''" "Block2 ?r2 = ''''"
    by (simp_all add: sample_record_def Record_zero_def)
  have g: "getRecordChainClient sample_env (Provider ?r) = Inr (?c, ?p)"
    "getRecordChainClient sample_env (Provider2 ?r2) = Inr (?c, ?p)"
    by (simp_all add: sample_down_client)
  have k: "Commit ?c (toParam sample_env ?r) = ('''', '''', '''', Some ''gas estimation failed'')"
    "Commit ?c (toParam sample_env ?r2) = ('''', '''', '''', Some ''gas estimation failed'')"
    by (simp_all add: EthereumClient_interface_def sample_down_Commit)
  have n: "Provider_Name ?p = ''eth-down''" by (simp add: sample_provider_def)
  have e: "snd (snd (snd ?res)) = Some ''gas estimation failed''"
    by (simp add: sample_down_Commit)
  then have e': "?res = (fst ?res, fst (snd ?res), fst (snd (snd ?res)), Some ''gas estimation failed'')"
    by (metis prod.collapse)
  from commit_failure_atomic [of ?r sample_env ?c ?p "''''" "''''" "''''" "''gas estimation failed''" sample_store]
    b(1) g(1) k(1)
  have c1: "CommitRecord sample_env sample_store ?r =
     (Return (False, None, Some ''gas estimation failed''), ?r\<lparr>Provider := Provider_Name ?p\<rparr>, sample_store)"
    by blast
  from commit_failure_atomic [of ?r2 sample_env ?c ?p "''''" "''''" "''''" "''gas estimation failed''" sample_store]
    b(2) g(2) k(2)
  have c2: "CommitRecordSecond sample_env sample_store ?r2 =
     (Return (False, Some ''gas estimation failed''), ?r2\<lparr>Provider2 := Provider_Name ?p\<rparr>, sample_store)"
    by blast
  from commit_failure_atomic [where c = sample_client_down and data = "''payload''"
      and b' = "fst ?res" and t' = "fst (snd ?res)" and h' = "fst (snd (snd ?res))"
      and err' = "''gas estimation failed''"] e'
  have c3: "fst ?res = '''' \<and> fst (snd ?res) = '''' \<and> fst (snd (snd ?res)) = ''''"
    by blast
  from c1 c2 c3 e n show ?thesis by simp
qed

text \<open>
  Claim C6. Let the id split into owner and name, let p be the stored record that
  getRecord finds for them, and let r be the record of the update request. After
  UpdateRecord the caller's record has Block, BlockHash and Transaction empty if the
  provider of r differs from the provider of p, and as in r if it is the same; likewise
  Block2, BlockHash2 and Transaction2 for the second provider, independently; the two
  provider names are those of r. If the database accepts the update, the call returns
  true and every row with that name holds exactly this record (under the row's own key),
  so the cleared fields are what is written.
\<close>

theorem update_clears_slot_on_provider_change:
  "GetOwnerAndNameFromId env i = Some (owner, name)
   \<and> getRecord db owner name = (Some p, None)
   \<and> UpdateRecord env db i r = (res, r', db') \<longrightarrow>
     (Provider r \<noteq> Provider p \<longrightarrow>
        Block r' = '''' \<and> BlockHash r' = '''' \<and> Transaction r' = '''')
   \<and> (Provider r = Provider p \<longrightarrow>
        Block r' = Block r \<and> BlockHash r' = BlockHash r \<and> Transaction r' = Transaction r)
   \<and> (Provider2 r \<noteq> Provider2 p \<longrightarrow>
        Block2 r' = '''' \<and> BlockHash2 r' = '''' \<and> Transaction2 r' = '''')
   \<and> (Provider2 r = Provider2 p \<longrightarrow>
        Block2 r' = Block2 r \<and> BlockHash2 r' = BlockHash2 r \<and> Transaction2 r' = Transaction2 r)
   \<and> Provider r' = Provider r \<and> Provider2 r' = Provider2 r
   \<and> (fault db DbUpdate = None \<longrightarrow>
        res = Return (True, None)
        \<and> rows db' = map (\<lambda>row. if Name row = name then r'\<lparr>RecordId := RecordId row\<rparr> else row)
                        (rows db))
   \<and> (fault db DbUpdate \<noteq> None \<longrightarrow> db' = db)"
proof (intro impI, elim conjE)
  assume s: "GetOwnerAndNameFromId env i = Some (owner, name)"
    and g: "getRecord db owner name = (Some p, None)"
    and u: "UpdateRecord env db i r = (res, r', db')"
  define r1 where "r1 = (if Provider r \<noteq> Provider p
                         then r\<lparr>Block := '''', BlockHash := '''', Transaction := ''''\<rparr> else r)"
  define r2 where "r2 = (if Provider2 r1 \<noteq> Provider2 p
                         then r1\<lparr>Block2 := '''', BlockHash2 := '''', Transaction2 := ''''\<rparr> else r1)"
  from getRecord_Some_name [OF g] have m: "\<exists>row\<in>set (rows db). Name row = name" by blast
  from s g u have r': "r' = r2"
    by (auto simp: UpdateRecord_def Let_def r1_def r2_def engine_Update_AllCols_def
        split: option.splits)
  from s g u m have d: "fault db DbUpdate = None \<longrightarrow>
        res = Return (True, None)
        \<and> rows db' = map (\<lambda>row. if Name row = name then r2\<lparr>RecordId := RecordId row\<rparr> else row)
                        (rows db)"
    and d': "fault db DbUpdate \<noteq> None \<longrightarrow> db' = db"
    by (auto simp: UpdateRecord_def Let_def r1_def r2_def engine_Update_AllCols_def
        filter_empty_conv split: option.splits)
  from d d' show "(Provider r \<noteq> Provider p \<longrightarrow>
        Block r' = '''' \<and> BlockHash r' = '''' \<and> Transaction r' = '''')
   \<and> (Provider r = Provider p \<longrightarrow>
        Block r' = Block r \<and> BlockHash r' = BlockHash r \<and> Transaction r' = Transaction r)
   \<and> (Provider2 r \<noteq> Provider2 p \<longrightarrow>
        Block2 r' = '''' \<and> BlockHash2 r' = '''' \<and> Transaction2 r' = '''')
   \<and> (Provider2 r = Provider2 p \<longrightarrow>
        Block2 r' = Block2 r \<and> BlockHash2 r' = BlockHash2 r \<and> Transaction2 r' = Transaction2 r)
   \<and> Provider r' = Provider r \<and> Provider2 r' = Provider2 r
   \<and> (fault db DbUpdate = None \<longrightarrow>
        res = Return (True, None)
        \<and> rows db' = map (\<lambda>row. if Name row = name then r'\<lparr>RecordId := RecordId row\<rparr> else row)
                        (rows db))
   \<and> (fault db DbUpdate \<noteq> None \<longrightarrow> db' = db)"
    unfolding r' by (simp add: r1_def r2_def)
qed

theorem update_clears_slot_on_provider_change_witness:
  "getRecord sample_store ''org1'' ''rec-1'' = (Some sample_anchored, None)
   \<and> Provider sample_anchored = ''eth-main'' \<and> Block sample_anchored = ''12345''
   \<and> fst (UpdateRecord sample_env sample_store ''org1/rec-1''
            (sample_anchored\<lparr>Provider := ''eth-down'', Block2 := ''55''\<rparr>)) = Return (True, None)
   \<and> Block (fst (snd (UpdateRecord sample_env sample_store ''org1/rec-1''
            (sample_anchored\<lparr>Provider := ''eth-down'', Block2 := ''55''\<rparr>)))) = ''''
   \<and> BlockHash (fst (snd (UpdateRecord sample_env sample_store ''org1/rec-1''
            (sample_anchored\<lparr>Provider := ''eth-down'', Block2 := ''55''\<rparr>)))) = ''''
   \<and> Transaction (fst (snd (UpdateRecord sample_env sample_store ''org1/rec-1''
            (sample_anchored\<lparr>Provider := ''eth-down'', Block2 := ''55''\<rparr>)))) = ''''
   \<and> Block2 (fst (snd (UpdateRecord sample_env sample_store ''org1/rec-1''
            (sample_anchored\<lparr>Provider := ''eth-down'', Block2 := ''55''\<rparr>)))) = ''55''
   \<and> map Block (rows (snd (snd (UpdateRecord sample_env sample_store ''org1/rec-1''
            (sample_anchored\<lparr>Provider := ''eth-down'', Block2 := ''55''\<rparr>))))) = ['''', '''', '''']
   \<and> map Block2 (rows (snd (snd (UpdateRecord sample_env sample_store ''org1/rec-1''
            (sample_anchored\<lparr>Provider := ''eth-down'', Block2 := ''55''\<rparr>))))) = [''55'', ''55'', '''']"
proof -
  let ?r = "sample_anchored\<lparr>Provider := ''eth-down'', Block2 := ''55''\<rparr>"
  let ?U = "UpdateRecord sample_env sample_store ''org1/rec-1'' ?r"
  have g: "getRecord sample_store ''org1'' ''rec-1'' = (Some sample_anchored, None)"
    by (simp add: getRecord_by_name sample_faults sample_rows sample_names)
  have a: "Provider sample_anchored = ''eth-main''" "Block sample_anchored = ''12345''"
    "Provider2 sample_anchored = ''''"
    by (simp_all add: sample_anchored_def sample_record_def Record_zero_def)
  have u: "?U = (fst ?U, fst (snd ?U), snd (snd ?U))" by simp
  have h: "GetOwnerAndNameFromId sample_env ''org1/rec-1'' = Some (''org1'', ''rec-1'')
      \<and> getRecord sample_store ''org1'' ''rec-1'' = (Some sample_anchored, None)
      \<and> ?U = (fst ?U, fst (snd ?U), snd (snd ?U))"
    by (intro conjI sample_split g u)
  note T = update_clears_slot_on_provider_change
    [of sample_env "''org1/rec-1''" "''org1''" "''rec-1''" sample_store sample_anchored ?r
      "fst ?U" "fst (snd ?U)" "snd (snd ?U)", THEN mp, OF h]
  from T have t1: "Provider ?r \<noteq> Provider sample_anchored \<longrightarrow>
      Block (fst (snd ?U)) = '''' \<and> BlockHash (fst (snd ?U)) = '''' \<and> Transaction (fst (snd ?U)) = ''''"
    by (elim conjE)
  from T have t2: "Provider2 ?r = Provider2 sample_anchored \<longrightarrow>
      Block2 (fst (snd ?U)) = Block2 ?r \<and> BlockHash2 (fst (snd ?U)) = BlockHash2 ?r
      \<and> Transaction2 (fst (snd ?U)) = Transaction2 ?r"
    by (elim conjE)
  from T have t3: "fault sample_store DbUpdate = None \<longrightarrow>
      fst ?U = Return (True, None)
      \<and> rows (snd (snd ?U)) =
          map (\<lambda>row. if Name row = ''rec-1'' then (fst (snd ?U))\<lparr>RecordId := RecordId row\<rparr> else row)
            (rows sample_store)"
    by (elim conjE)
  from t1 a have c1: "Block (fst (snd ?U)) = ''''" "BlockHash (fst (snd ?U)) = ''''"
    "Transaction (fst (snd ?U)) = ''''"
    by simp_all
  from t2 a have c2: "Block2 (fst (snd ?U)) = ''55''" by simp
  from t3 sample_faults have c3: "fst ?U = Return (True, None)"
    and c4: "rows (snd (snd ?U)) =
          map (\<lambda>row. if Name row = ''rec-1'' then (fst (snd ?U))\<lparr>RecordId := RecordId row\<rparr> else row)
            (rows sample_store)"
    by simp_all
  have c5: "map Block (rows (snd (snd ?U))) = ['''', '''', '''']"
    "map Block2 (rows (snd (snd ?U))) = [''55'', ''55'', '''']"
    unfolding c4 by (simp_all add: sample_rows sample_names c1 c2 sample_record_def Record_zero_def)
  show ?thesis
    by (intro conjI g a(1) a(2) c1 c2 c3 c5)
qed

text \<open>
  Claim C7. When the node returns the receipt and the transaction, Query returns no error,
  whatever the comparison says. If the payload on the chain equals the local payload, the
  text is "The query result for block [n] is: Matched", a line of stars, "Data:" and the
  payload: it contains Matched and the payload. If they differ, the text is
  "... Mismatched", the stars, "Chain data:", the payload on the chain, the stars, "Local
  data:" and the local payload: it contains Mismatched and both payloads.
\<close>

theorem query_verdict:
  "TransactionReceipt (Client c) (HexToHash (Client c) txHash) = Inr receipt
   \<and> TransactionByHash (Client c) (HexToHash (Client c) txHash) = Inr tx \<longrightarrow>
   (Tx_Data tx = data \<longrightarrow>
      EthereumClient_Query c txHash data =
        (''The query result for block ['' @ Receipt_BlockNumber_String receipt @ ''] is: Matched''
           @ [CHR 0x0A] @ replicate 54 (CHR ''*'') @ [CHR 0x0A] @ ''Data:''
           @ [CHR 0x0A, CHR 0x0A] @ data, None)
      \<and> sublist ''Matched'' (fst (EthereumClient_Query c txHash data))
      \<and> sublist data (fst (EthereumClient_Query c txHash data)))
   \<and> (Tx_Data tx \<noteq> data \<longrightarrow>
      EthereumClient_Query c txHash data =
        (''The query result for block ['' @ Receipt_BlockNumber_String receipt @ ''] is: Mismatched''
           @ [CHR 0x0A] @ replicate 54 (CHR ''*'') @ [CHR 0x0A] @ ''Chain data:''
           @ [CHR 0x0A, CHR 0x0A] @ Tx_Data tx @ [CHR 0x0A] @ replicate 54 (CHR ''*'')
           @ [CHR 0x0A] @ ''Local data:'' @ [CHR 0x0A, CHR 0x0A] @ data, None)
      \<and> sublist ''Mismatched'' (fst (EthereumClient_Query c txHash data))
      \<and> sublist (Tx_Data tx) (fst (EthereumClient_Query c txHash data))
      \<and> sublist data (fst (EthereumClient_Query c txHash data)))"
proof (intro impI conjI; elim conjE)
  assume r: "TransactionReceipt (Client c) (HexToHash (Client c) txHash) = Inr receipt"
    and t: "TransactionByHash (Client c) (HexToHash (Client c) txHash) = Inr tx"
  {
    assume d: "Tx_Data tx = data"
    let ?pre = "''The query result for block ['' @ Receipt_BlockNumber_String receipt @ ''] is: ''"
    let ?mid = "[CHR 0x0A] @ replicate 54 (CHR ''*'') @ [CHR 0x0A] @ ''Data:'' @ [CHR 0x0A, CHR 0x0A]"
    have q: "fst (EthereumClient_Query c txHash data) = ?pre @ ''Matched'' @ ?mid @ data"
      using r t d by (simp add: EthereumClient_Query_def stars_def)
    show "EthereumClient_Query c txHash data =
        (''The query result for block ['' @ Receipt_BlockNumber_String receipt @ ''] is: Matched''
           @ [CHR 0x0A] @ replicate 54 (CHR ''*'') @ [CHR 0x0A] @ ''Data:''
           @ [CHR 0x0A, CHR 0x0A] @ data, None)"
      using r t d by (simp add: EthereumClient_Query_def stars_def)
    show "sublist ''Matched'' (fst (EthereumClient_Query c txHash data))"
      unfolding q by (rule sublist_appendI)
    have "sublist data ((?pre @ ''Matched'' @ ?mid) @ data @ [])"
      by (rule sublist_appendI)
    then show "sublist data (fst (EthereumClient_Query c txHash data))"
      unfolding q by simp
  }
  {
    assume d: "Tx_Data tx \<noteq> data"
    let ?pre = "''The query result for block ['' @ Receipt_BlockNumber_String receipt @ ''] is: ''"
    let ?m1 = "[CHR 0x0A] @ replicate 54 (CHR ''*'') @ [CHR 0x0A] @ ''Chain data:'' @ [CHR 0x0A, CHR 0x0A]"
    let ?m2 = "[CHR 0x0A] @ replicate 54 (CHR ''*'') @ [CHR 0x0A] @ ''Local data:'' @ [CHR 0x0A, CHR 0x0A]"
    have q: "fst (EthereumClient_Query c txHash data) = ?pre @ ''Mismatched'' @ (?m1 @ Tx_Data tx @ ?m2 @ data)"
      using r t d by (simp add: EthereumClient_Query_def stars_def)
    show "EthereumClient_Query c txHash data =
        (''The query result for block ['' @ Receipt_BlockNumber_String receipt @ ''] is: Mismatched''
           @ [CHR 0x0A] @ replicate 54 (CHR ''*'') @ [CHR 0x0A] @ ''Chain data:''
           @ [CHR 0x0A, CHR 0x0A] @ Tx_Data tx @ [CHR 0x0A] @ replicate 54 (CHR ''*'')
           @ [CHR 0x0A] @ ''Local data:'' @ [CHR 0x0A, CHR 0x0A] @ data, None)"
      using r t d by (simp add: EthereumClient_Query_def stars_def)
    show "sublist ''Mismatched'' (fst (EthereumClient_Query c txHash data))"
      unfolding q by (rule sublist_appendI)
    have "sublist (Tx_Data tx) ((?pre @ ''Mismatched'' @ ?m1) @ Tx_Data tx @ (?m2 @ data))"
      by (rule sublist_appendI)
    then show "sublist (Tx_Data tx) (fst (EthereumClient_Query c txHash data))"
      unfolding q by simp
    have "sublist data ((?pre @ ''Mismatched'' @ ?m1 @ Tx_Data tx @ ?m2) @ data @ [])"
      by (rule sublist_appendI)
    then show "sublist data (fst (EthereumClient_Query c txHash data))"
      unfolding q by simp
  }
qed

theorem query_verdict_witness:
  "snd (EthereumClient_Query sample_client ''0xabc'' ''payload'') = None
   \<and> sublist ''Matched'' (fst (EthereumClient_Query sample_client ''0xabc'' ''payload''))
   \<and> sublist ''payload'' (fst (EthereumClient_Query sample_client ''0xabc'' ''payload''))
   \<and> snd (EthereumClient_Query sample_client ''0xabc'' ''tampered'') = None
   \<and> sublist ''Mismatched'' (fst (EthereumClient_Query sample_client ''0xabc'' ''tampered''))
   \<and> sublist ''payload'' (fst (EthereumClient_Query sample_client ''0xabc'' ''tampered''))
   \<and> sublist ''tampered'' (fst (EthereumClient_Query sample_client ''0xabc'' ''tampered''))"
proof -
  let ?receipt = "\<lparr>Receipt_BlockHash_Hex = ''0xdef'', Receipt_BlockNumber_String = ''100''\<rparr>"
  let ?tx = "\<lparr>Tx_Nonce = 7, Tx_To = ''0x01'', Tx_Value = 0, Tx_GasLimit = 21000,
              Tx_GasPrice = 20, Tx_Data = ''payload''\<rparr>"
  have r: "TransactionReceipt (Client sample_client) (HexToHash (Client sample_client) ''0xabc'')
      = Inr ?receipt"
    by (simp add: sample_client_def sample_node_def)
  have t: "TransactionByHash (Client sample_client) (HexToHash (Client sample_client) ''0xabc'')
      = Inr ?tx"
    by (simp add: sample_client_def sample_node_def)
  have same: "Tx_Data ?tx = ''payload''" and other: "Tx_Data ?tx \<noteq> ''tampered''"
    by simp_all
  from query_verdict [of sample_client "''0xabc''" ?receipt ?tx "''payload''"] r t same
  obtain text1 where
    m: "EthereumClient_Query sample_client ''0xabc'' ''payload'' = (text1, None)"
      "sublist ''Matched'' (fst (EthereumClient_Query sample_client ''0xabc'' ''payload''))"
      "sublist ''payload'' (fst (EthereumClient_Query sample_client ''0xabc'' ''payload''))"
    by blast
  from query_verdict [of sample_client "''0xabc''" ?receipt ?tx "''tampered''"] r t other
  obtain text2 where
    mm: "EthereumClient_Query sample_client ''0xabc'' ''tampered'' = (text2, None)"
      "sublist ''Mismatched'' (fst (EthereumClient_Query sample_client ''0xabc'' ''tampered''))"
      "sublist (Tx_Data ?tx) (fst (EthereumClient_Query sample_client ''0xabc'' ''tampered''))"
      "sublist ''tampered'' (fst (EthereumClient_Query sample_client ''0xabc'' ''tampered''))"
    by blast
  from m(1) have s1: "snd (EthereumClient_Query sample_client ''0xabc'' ''payload'') = None"
    by simp
  from mm(1) have s2: "snd (EthereumClient_Query sample_client ''0xabc'' ''tampered'') = None"
    by simp
  from mm(3) same
  have p: "sublist ''payload'' (fst (EthereumClient_Query sample_client ''0xabc'' ''tampered''))"
    by (simp only:)
  from s1 m(2) m(3) s2 mm(2) p mm(4) show ?thesis by blast
qed

text \<open>
  Claim C8. With logPostOnly set, AddRecord on a record whose method is GET returns
  (false, nil, nil): no error, no data, and the caller's record and the store are what
  they were, so nothing has been inserted.
\<close>

theorem add_get_skipped:
  "logPostOnly env \<and> Method r = ''GET'' \<longrightarrow>
     AddRecord env db r = (Return (False, None, None), r, db)"
  by (simp add: AddRecord_def)

theorem add_get_skipped_witness:
  "logPostOnly sample_env
   \<and> AddRecord sample_env sample_store ((sample_record 0 ''org1'' ''rec-9'')\<lparr>Method := ''GET''\<rparr>) =
       (Return (False, None, None), (sample_record 0 ''org1'' ''rec-9'')\<lparr>Method := ''GET''\<rparr>,
        sample_store)"
proof -
  have h: "logPostOnly sample_env" by (simp add: sample_env_def)
  have m: "Method ((sample_record 0 ''org1'' ''rec-9'')\<lparr>Method := ''GET''\<rparr>) = ''GET''" by simp
  from add_get_skipped [of sample_env "(sample_record 0 ''org1'' ''rec-9'')\<lparr>Method := ''GET''\<rparr>" sample_store] h m
  show ?thesis by simp
qed

text \<open>
  Claim C9. The record that NewRecord returns holds the filtered request URI cut to its
  first 1000 bytes when it is longer than 1000 (the stored text then has length 1000),
  and the filtered URI itself when it has 1000 bytes or fewer. NewRecord does return a
  record whenever the response encodes and decodes and the location lookup succeeds.
\<close>

theorem requestUri_truncated:
  "(NewRecord env ctx = (Some rec, None) \<longrightarrow>
      (let uri = FilterQuery env (Request_RequestURI (ctx_Request ctx)) [''accessToken'']
       in (length uri > 1000 \<longrightarrow> RequestUri rec = take 1000 uri \<and> length (RequestUri rec) = 1000)
          \<and> (length uri \<le> 1000 \<longrightarrow> RequestUri rec = uri)))
   \<and> (json_Marshal env (ctx_Input_Data_json ctx) = Inr respBytes
       \<and> json_Unmarshal env respBytes = Inr resp
       \<and> GetInfoFromIP env (strings_Replace (GetIPFromRequest env (ctx_Request ctx)) '': '' '''')
           = Inr locationInfo \<longrightarrow>
       (\<exists>rec. NewRecord env ctx = (Some rec, None)))"
  by (auto simp: NewRecord_def Let_def split: sum.splits)

theorem requestUri_truncated_witness:
  "(\<exists>rec. NewRecord sample_env (sample_ctx (replicate 1500 (CHR ''a''))) = (Some rec, None)
         \<and> RequestUri rec = replicate 1000 (CHR ''a''))
   \<and> (\<exists>rec. NewRecord sample_env (sample_ctx ''/api/get-stores?owner=admin'') = (Some rec, None)
         \<and> RequestUri rec = ''/api/get-stores?owner=admin'')"
proof -
  let ?long = "sample_ctx (replicate 1500 (CHR ''a''))"
  let ?short = "sample_ctx ''/api/get-stores?owner=admin''"
  have m: "json_Marshal sample_env (ctx_Input_Data_json c) = Inr ''{}''" for c :: Context
    by (simp add: sample_env_def)
  have u: "json_Unmarshal sample_env ''{}'' = Inr \<lparr>Status = ''ok'', Msg = ''''\<rparr>"
    by (simp add: sample_env_def)
  have g: "GetInfoFromIP sample_env
             (strings_Replace (GetIPFromRequest sample_env (ctx_Request c)) '': '' '''')
      = Inr \<lparr>Loc_Country = ''NZ'', Loc_City = ''Wellington''\<rparr>" for c :: Context
    by (simp add: sample_env_def)
  have f: "FilterQuery sample_env (Request_RequestURI (ctx_Request (sample_ctx uri)))
             [''accessToken''] = uri" for uri
    by (simp add: sample_env_def sample_ctx_def)
  from requestUri_truncated [of sample_env ?long] m u g
  obtain r1 where r1: "NewRecord sample_env ?long = (Some r1, None)" by blast
  from requestUri_truncated [of sample_env ?long r1] r1
  have "RequestUri r1 = take 1000 (replicate 1500 (CHR ''a''))"
    by (simp add: f)
  then have p1: "RequestUri r1 = replicate 1000 (CHR ''a'')" by simp
  from requestUri_truncated [of sample_env ?short] m u g
  obtain r2 where r2: "NewRecord sample_env ?short = (Some r2, None)" by blast
  from requestUri_truncated [of sample_env ?short r2] r2
  have p2: "RequestUri r2 = ''/api/get-stores?owner=admin''"
    by (simp add: f)
  from r1 p1 r2 p2 show ?thesis by blast
qed

text \<open>
  Claim C10. getRecord gives the same answer for any two non-empty owners and the same
  name: when the database answers, it is the first row with that name, whoever owns it.
  With an empty owner or an empty name it returns (nil, nil). UpdateRecordFields gives
  the same result for two ids with the same name and different non-empty owners, and
  when a row has that name it updates every row with that name. DeleteRecord removes
  every row whose name is the name of the record passed in, and reports whether there
  was one.
\<close>

theorem record_keyed_by_name:
  "(o1 \<noteq> '''' \<and> o2 \<noteq> '''' \<longrightarrow> getRecord db o1 n = getRecord db o2 n)
   \<and> (o1 \<noteq> '''' \<and> n \<noteq> '''' \<and> fault db DbGet = None \<longrightarrow>
        getRecord db o1 n = (find (\<lambda>row. Name row = n) (rows db), None))
   \<and> getRecord db '''' n = (None, None)
   \<and> getRecord db o1 '''' = (None, None)
   \<and> (GetOwnerAndNameFromId env id1 = Some (o1, n) \<and> GetOwnerAndNameFromId env id2 = Some (o2, n)
        \<and> o1 \<noteq> '''' \<and> o2 \<noteq> '''' \<longrightarrow>
        UpdateRecordFields env db id1 flds = UpdateRecordFields env db id2 flds)
   \<and> (GetOwnerAndNameFromId env id1 = Some (o1, n) \<and> o1 \<noteq> '''' \<and> n \<noteq> ''''
        \<and> fault db DbGet = None \<and> fault db DbUpdate = None
        \<and> (\<exists>row\<in>set (rows db). Name row = n) \<longrightarrow>
        UpdateRecordFields env db id1 flds =
          (Return (True, None),
           db\<lparr>rows := map (\<lambda>row. if Name row = n then set_columns flds row else row) (rows db)\<rparr>))
   \<and> (fault db DbDelete = None \<longrightarrow>
        DeleteRecord db r =
          ((\<exists>row\<in>set (rows db). Name row = Name r, None),
           db\<lparr>rows := filter (\<lambda>row. Name row \<noteq> Name r) (rows db)\<rparr>))"
proof (intro conjI impI; (elim conjE)?)
  show "getRecord db '''' n = (None, None)" "getRecord db o1 '''' = (None, None)"
    by (simp_all add: getRecord_def)
next
  assume "o1 \<noteq> ''''" "o2 \<noteq> ''''"
  then show "getRecord db o1 n = getRecord db o2 n"
    by (simp add: getRecord_def)
next
  assume "o1 \<noteq> ''''" "n \<noteq> ''''" "fault db DbGet = None"
  then show "getRecord db o1 n = (find (\<lambda>row. Name row = n) (rows db), None)"
    by (simp add: getRecord_by_name)
next
  assume "GetOwnerAndNameFromId env id1 = Some (o1, n)" "GetOwnerAndNameFromId env id2 = Some (o2, n)"
    "o1 \<noteq> ''''" "o2 \<noteq> ''''"
  then show "UpdateRecordFields env db id1 flds = UpdateRecordFields env db id2 flds"
    by (simp add: UpdateRecordFields_def getRecord_def)
next
  assume "GetOwnerAndNameFromId env id1 = Some (o1, n)" "o1 \<noteq> ''''" "n \<noteq> ''''"
    "fault db DbGet = None" "fault db DbUpdate = None" "\<exists>row\<in>set (rows db). Name row = n"
  then show "UpdateRecordFields env db id1 flds =
          (Return (True, None),
           db\<lparr>rows := map (\<lambda>row. if Name row = n then set_columns flds row else row) (rows db)\<rparr>)"
    by (rule UpdateRecordFields_found)
next
  assume "fault db DbDelete = None"
  then show "DeleteRecord db r =
          ((\<exists>row\<in>set (rows db). Name row = Name r, None),
           db\<lparr>rows := filter (\<lambda>row. Name row \<noteq> Name r) (rows db)\<rparr>)"
    by (auto simp: DeleteRecord_def engine_Delete_def filter_empty_conv)
qed

theorem record_keyed_by_name_witness:
  "getRecord sample_store ''org2'' ''rec-1'' = (Some sample_anchored, None)
   \<and> Owner sample_anchored = ''org1''
   \<and> getRecord sample_store ''org1'' ''rec-1'' = getRecord sample_store ''org2'' ''rec-1''
   \<and> UpdateRecordFields sample_env sample_store ''org2/rec-1'' [''block'' \<mapsto> ''9''] =
       (Return (True, None),
        sample_store\<lparr>rows := [sample_anchored\<lparr>Block := ''9''\<rparr>,
                               (sample_record 2 ''org2'' ''rec-1'')\<lparr>Block := ''9''\<rparr>,
                               sample_record 3 ''org1'' ''rec-2'']\<rparr>)
   \<and> UpdateRecordFields sample_env sample_store ''org1/rec-1'' [''block'' \<mapsto> ''9''] =
       UpdateRecordFields sample_env sample_store ''org2/rec-1'' [''block'' \<mapsto> ''9'']
   \<and> DeleteRecord sample_store (sample_record 2 ''org2'' ''rec-1'') =
       ((True, None), sample_store\<lparr>rows := [sample_record 3 ''org1'' ''rec-2'']\<rparr>)"
proof -
  let ?f = "[''block'' \<mapsto> ''9'']"
  let ?r = "sample_record 2 ''org2'' ''rec-1''"
  note T = record_keyed_by_name [of "''org1''" "''org2''" sample_store "''rec-1''" sample_env
      "''org1/rec-1''" "''org2/rec-1''" ?f ?r]
  note T' = record_keyed_by_name [of "''org2''" "''org2''" sample_store "''rec-1''" sample_env
      "''org2/rec-1''" "''org2/rec-1''" ?f ?r]
  have ne: "''org1'' \<noteq> ''''" "''org2'' \<noteq> ''''" "''rec-1'' \<noteq> ''''" by simp_all
  have e: "\<exists>row\<in>set (rows sample_store). Name row = ''rec-1''"
    by (simp add: sample_rows sample_names)
  from T have "''org1'' \<noteq> '''' \<and> ''org2'' \<noteq> '''' \<longrightarrow>
      getRecord sample_store ''org1'' ''rec-1'' = getRecord sample_store ''org2'' ''rec-1''"
    by (elim conjE)
  with ne have c1: "getRecord sample_store ''org1'' ''rec-1'' = getRecord sample_store ''org2'' ''rec-1''"
    by simp
  from T' have "''org2'' \<noteq> '''' \<and> ''rec-1'' \<noteq> '''' \<and> fault sample_store DbGet = None \<longrightarrow>
      getRecord sample_store ''org2'' ''rec-1'' =
        (find (\<lambda>row. Name row = ''rec-1'') (rows sample_store), None)"
    by (elim conjE)
  with ne sample_faults
  have c2: "getRecord sample_store ''org2'' ''rec-1'' = (Some sample_anchored, None)"
    by (simp add: sample_rows sample_names)
  from T have "GetOwnerAndNameFromId sample_env ''org1/rec-1'' = Some (''org1'', ''rec-1'')
      \<and> GetOwnerAndNameFromId sample_env ''org2/rec-1'' = Some (''org2'', ''rec-1'')
      \<and> ''org1'' \<noteq> '''' \<and> ''org2'' \<noteq> '''' \<longrightarrow>
      UpdateRecordFields sample_env sample_store ''org1/rec-1'' ?f =
        UpdateRecordFields sample_env sample_store ''org2/rec-1'' ?f"
    by (elim conjE)
  with sample_split ne
  have c3: "UpdateRecordFields sample_env sample_store ''org1/rec-1'' ?f =
        UpdateRecordFields sample_env sample_store ''org2/rec-1'' ?f"
    by simp
  from T' have "GetOwnerAndNameFromId sample_env ''org2/rec-1'' = Some (''org2'', ''rec-1'')
      \<and> ''org2'' \<noteq> '''' \<and> ''rec-1'' \<noteq> ''''
      \<and> fault sample_store DbGet = None \<and> fault sample_store DbUpdate = None
      \<and> (\<exists>row\<in>set (rows sample_store). Name row = ''rec-1'') \<longrightarrow>
      UpdateRecordFields sample_env sample_store ''org2/rec-1'' ?f =
        (Return (True, None),
         sample_store\<lparr>rows := map (\<lambda>row. if Name row = ''rec-1'' then set_columns ?f row else row)
                                  (rows sample_store)\<rparr>)"
    by (elim conjE)
  with sample_split ne sample_faults e
  have c4: "UpdateRecordFields sample_env sample_store ''org2/rec-1'' ?f =
       (Return (True, None),
        sample_store\<lparr>rows := [sample_anchored\<lparr>Block := ''9''\<rparr>, ?r\<lparr>Block := ''9''\<rparr>,
                               sample_record 3 ''org1'' ''rec-2'']\<rparr>)"
    by (simp add: sample_rows sample_names set_columns_block)
  from T have "fault sample_store DbDelete = None \<longrightarrow>
      DeleteRecord sample_store ?r =
        ((\<exists>row\<in>set (rows sample_store). Name row = Name ?r, None),
         sample_store\<lparr>rows := filter (\<lambda>row. Name row \<noteq> Name ?r) (rows sample_store)\<rparr>)"
    by (elim conjE)
  with sample_faults
  have c5: "DeleteRecord sample_store ?r =
       ((True, None), sample_store\<lparr>rows := [sample_record 3 ''org1'' ''rec-2'']\<rparr>)"
    by (simp add: sample_rows sample_names)
  have o: "Owner sample_anchored = ''org1''" by (simp add: sample_names)
  show ?thesis
    by (intro conjI c2 o c1 c4 c3 c5)
qed

end
